theory Spec2Isabelle
  imports Complex_Main "HOL-Library.Sublist"
begin

section \<open>Python text primitives\<close>

text \<open>
  A Python \<open>str\<close> is modelled as a \<open>string\<close> whose characters are the code points
  below 256 (the Latin-1 block of Unicode, which holds every character of the
  program's own messages and keyword tables).  \<open>CHR 0xED\<close> is the letter i with an
  acute accent, and so on.  The character classes below are the ones Python's
  \<open>str.lower\<close> and the \<open>re\<close> module use on that block.
\<close>

definition chr_in :: "char \<Rightarrow> nat \<Rightarrow> nat \<Rightarrow> bool" where
  "chr_in c lo hi = (lo \<le> (of_char c :: nat) \<and> (of_char c :: nat) \<le> hi)"

definition py_lower_chr :: "char \<Rightarrow> char" where
  "py_lower_chr c =
     (if chr_in c 65 90 \<or> (chr_in c 192 222 \<and> c \<noteq> CHR 0xD7)
      then char_of ((of_char c :: nat) + 32) else c)"

definition py_lower :: "string \<Rightarrow> string" where
  "py_lower s = map py_lower_chr s"

definition py_upper_chr :: "char \<Rightarrow> char" where
  \<comment> \<open>\<open>str.upper\<close> on the characters it is applied to here: ASCII letters, digits, white space\<close>
  "py_upper_chr c = (if chr_in c 97 122 then char_of ((of_char c :: nat) - 32) else c)"

definition py_upper :: "string \<Rightarrow> string" where
  "py_upper s = map py_upper_chr s"

definition is_digit :: "char \<Rightarrow> bool" where
  \<comment> \<open>\<open>\d\<close>\<close>
  "is_digit c = chr_in c 48 57"

definition is_space :: "char \<Rightarrow> bool" where
  \<comment> \<open>\<open>\s\<close> and \<open>str.isspace\<close>\<close>
  "is_space c = (chr_in c 9 13 \<or> chr_in c 28 32 \<or> c = CHR 0x85 \<or> c = CHR 0xA0)"

definition is_word :: "char \<Rightarrow> bool" where
  \<comment> \<open>\<open>\w\<close>: alphanumeric characters and the underscore\<close>
  "is_word c =
     (chr_in c 48 57 \<or> chr_in c 65 90 \<or> chr_in c 97 122 \<or> c = CHR ''_''
      \<or> c = CHR 0xAA \<or> c = CHR 0xB2 \<or> c = CHR 0xB3 \<or> c = CHR 0xB5
      \<or> c = CHR 0xB9 \<or> c = CHR 0xBA \<or> chr_in c 188 190
      \<or> chr_in c 192 214 \<or> chr_in c 216 246 \<or> chr_in c 248 255)"

fun py_in :: "string \<Rightarrow> string \<Rightarrow> bool" where
  \<comment> \<open>\<open>sub in s\<close>\<close>
  "py_in sub [] = (sub = [])"
| "py_in sub (c # cs) = (prefix sub (c # cs) \<or> py_in sub cs)"

definition startswith :: "string \<Rightarrow> string \<Rightarrow> bool" where
  "startswith s p = prefix p s"

fun join_sp :: "string list \<Rightarrow> string" where
  \<comment> \<open>\<open>" ".join(xs)\<close>\<close>
  "join_sp [] = []"
| "join_sp [x] = x"
| "join_sp (x # y # ys) = x @ '' '' @ join_sp (y # ys)"

definition py_strip :: "string \<Rightarrow> string" where
  "py_strip s = rev (dropWhile is_space (rev (dropWhile is_space s)))"

definition capitalize :: "string \<Rightarrow> string" where
  \<comment> \<open>\<open>str.capitalize\<close>, applied in the program to lower-case ASCII brand names only\<close>
  "capitalize s = (case s of [] \<Rightarrow> [] | c # cs \<Rightarrow> py_upper_chr c # py_lower cs)"

definition int_of_digits :: "string \<Rightarrow> int" where
  \<comment> \<open>\<open>int(t)\<close> for a text of decimal digits\<close>
  "int_of_digits t = foldl (\<lambda>acc c. 10 * acc + (int (of_char c) - 48)) 0 t"


section \<open>The fragment of Python's \<open>re\<close> the program uses\<close>

text \<open>
  Patterns are built from single-character tests, greedy bounded repetition of a
  single-character test (\<open>*\<close>, \<open>+\<close>, \<open>?\<close>, \<open>{m,n}\<close>), concatenation, alternation,
  capturing groups (never nested, never repeated) and the word boundary \<open>\b\<close>.
  A match state is the list of groups closed so far, the character before the
  current position, and the rest of the subject.  \<open>rx_match\<close> lists the states after
  every way of matching, in the order in which a backtracking matcher tries them;
  \<open>re_search\<close> takes the first one at the leftmost start position.
\<close>

datatype rx =
    Eps
  | Chr "char \<Rightarrow> bool"
  | Rep nat "nat option" "char \<Rightarrow> bool"
  | Cat rx rx
  | Alt rx rx
  | Grp rx
  | Bnd

type_synonym mstate = "string list \<times> char option \<times> string"

definition word_before :: "char option \<Rightarrow> bool" where
  "word_before p = (case p of None \<Rightarrow> False | Some c \<Rightarrow> is_word c)"

definition word_after :: "string \<Rightarrow> bool" where
  "word_after s = (case s of [] \<Rightarrow> False | c # _ \<Rightarrow> is_word c)"

definition rep_states :: "nat \<Rightarrow> nat option \<Rightarrow> (char \<Rightarrow> bool) \<Rightarrow> mstate \<Rightarrow> mstate list" where
  "rep_states lo hi P st =
     (case st of (g, p, s) \<Rightarrow>
        let run = length (takeWhile P s);
            mx = (case hi of None \<Rightarrow> run | Some h \<Rightarrow> min h run)
        in map (\<lambda>n. (g, (if n = 0 then p else Some (s ! (n - 1))), drop n s))
               (rev [lo..<Suc mx]))"

fun rx_match :: "rx \<Rightarrow> mstate \<Rightarrow> mstate list" where
  "rx_match Eps st = [st]"
| "rx_match (Chr P) (g, p, s) =
     (case s of [] \<Rightarrow> [] | c # cs \<Rightarrow> if P c then [(g, Some c, cs)] else [])"
| "rx_match (Rep lo hi P) st = rep_states lo hi P st"
| "rx_match (Cat a b) st = concat (map (rx_match b) (rx_match a st))"
| "rx_match (Alt a b) st = rx_match a st @ rx_match b st"
| "rx_match (Grp a) (g, p, s) =
     map (\<lambda>(g', p', s'). (g' @ [take (length s - length s') s], p', s'))
         (rx_match a (g, p, s))"
| "rx_match Bnd (g, p, s) = (if word_before p \<noteq> word_after s then [(g, p, s)] else [])"

text \<open>A successful search: the whole matched text (\<open>group(0)\<close>) and the groups.\<close>

fun search_from :: "rx \<Rightarrow> char option \<Rightarrow> string \<Rightarrow> (string \<times> string list) option" where
  "search_from r p [] =
     (case rx_match r ([], p, []) of
        [] \<Rightarrow> None
      | (g, _, s') # _ \<Rightarrow> Some ([], g))"
| "search_from r p (c # cs) =
     (case rx_match r ([], p, c # cs) of
        [] \<Rightarrow> search_from r (Some c) cs
      | (g, _, s') # _ \<Rightarrow> Some (take (length (c # cs) - length s') (c # cs), g))"

definition re_search :: "rx \<Rightarrow> string \<Rightarrow> (string \<times> string list) option" where
  "re_search r s = search_from r None s"

definition group1 :: "(string \<times> string list) \<Rightarrow> string" where
  "group1 m = hd (snd m)"

definition ch :: "char \<Rightarrow> rx" where
  "ch c = Chr (\<lambda>x. x = c)"

definition one_of :: "string \<Rightarrow> rx" where
  \<comment> \<open>a character set \<open>[...]\<close>\<close>
  "one_of cs = Chr (\<lambda>x. x \<in> set cs)"

definition seq :: "rx list \<Rightarrow> rx" where
  "seq rs = foldr Cat rs Eps"

definition lit :: "string \<Rightarrow> rx" where
  "lit s = seq (map ch s)"

definition star :: "(char \<Rightarrow> bool) \<Rightarrow> rx" where
  "star P = Rep 0 None P"

definition opt :: "(char \<Rightarrow> bool) \<Rightarrow> rx" where
  "opt P = Rep 0 (Some 1) P"

definition not_digit :: "char \<Rightarrow> bool" where
  \<comment> \<open>\<open>\D\<close>\<close>
  "not_digit c = (\<not> is_digit c)"


section \<open>api\_server: lexical normalizers and the policy gate\<close>

definition infer_cpu_score :: "string \<Rightarrow> int" where
  \<comment> \<open>\<open>_infer_cpu_score\<close>\<close>
  "infer_cpu_score name =
     (if name = [] then 4 else
      let s = py_lower name in
      if py_in ''celeron'' s then 2
      else if py_in ''athlon'' s then 3
      else if py_in ''pentium'' s then 3
      else if py_in ''silver'' s \<and> py_in ''pentium'' s then 3
      else if py_in ''core i3'' s then 4
      else if py_in ''core i5'' s then 6
      else if py_in ''core i7'' s then 8
      else if py_in ''core i9'' s then 9
      else if py_in ''ryzen 3'' s then 4
      else if py_in ''ryzen 5'' s then 6
      else if py_in ''ryzen 7'' s then 8
      else if py_in ''ryzen 9'' s then 9
      else if py_in ''xeon'' s then 7
      else if py_in ''apple m1'' s then 7
      else if py_in ''apple m2'' s then 8
      else if py_in ''apple m3'' s then 9
      else 4)"

definition comunes :: "string list" where
  "comunes =
     [''celeron'', ''pentium'', ''core i3'', ''core i5'', ''core i7'', ''core i9'',
      ''ryzen 3'', ''ryzen 5'', ''ryzen 7'', ''ryzen 9'', ''xeon'',
      ''apple m1'', ''apple m2'', ''apple m3'']"

definition cpu_is_known :: "string \<Rightarrow> bool" where
  \<comment> \<open>\<open>_cpu_is_known\<close>\<close>
  "cpu_is_known name = list_ex (\<lambda>k. py_in k (py_lower name)) comunes"

definition rx_intel_gen :: rx where
  \<comment> \<open>\<open>core\s*i[3579]\D*(1[1-5])\<close>\<close>
  "rx_intel_gen =
     seq [lit ''core'', star is_space, ch CHR ''i'', one_of ''3579'', star not_digit,
          Grp (seq [ch CHR ''1'', one_of ''12345''])]"

definition rx_ryzen_gen :: rx where
  \<comment> \<open>\<open>ryzen\s*[3579]?\D*([3-9])\D*5[0-9]{2,3}\<close>\<close>
  "rx_ryzen_gen =
     seq [lit ''ryzen'', star is_space, opt (\<lambda>c. c \<in> set ''3579''), star not_digit,
          Grp (one_of ''3456789''), star not_digit, ch CHR ''5'',
          Rep 2 (Some 3) (\<lambda>c. c \<in> set ''0123456789'')]"

definition infer_generation :: "string \<Rightarrow> int" where
  \<comment> \<open>\<open>_infer_generation\<close>: the Intel pattern, then the Ryzen pattern, then the default 10\<close>
  "infer_generation name =
     (if name = [] then 10 else
      let s = py_lower name in
      case re_search rx_intel_gen s of
        Some m \<Rightarrow> int_of_digits (group1 m)
      | None \<Rightarrow>
          (case re_search rx_ryzen_gen s of
             Some m \<Rightarrow> int_of_digits (group1 m)
           | None \<Rightarrow> 10))"

definition motivo_excluido :: string where
  "motivo_excluido =
     ''Procesador excluido por pol'' @ [CHR 0xED] @ ''tica (Pentium/Celeron/Atom). M'' @ [CHR 0xED]
     @ ''nimo Core i3 10'' @ [CHR 0xAA] @ '' gen en adelante.''"

definition motivo_i3_sin_gen :: string where
  "motivo_i3_sin_gen =
     ''Core i3 sin generaci'' @ [CHR 0xF3] @ ''n acreditada. Requisito m'' @ [CHR 0xED]
     @ ''nimo: i3 10'' @ [CHR 0xAA] @ '' gen en adelante.''"

definition motivo_i3_anterior :: string where
  "motivo_i3_anterior =
     ''Core i3 anterior a 10'' @ [CHR 0xAA] @ '' gen no aceptado. Requisito m'' @ [CHR 0xED]
     @ ''nimo: i3 10'' @ [CHR 0xAA] @ '' gen en adelante.''"

definition nombra_i3 :: "string \<Rightarrow> bool" where
  \<comment> \<open>the test \<open>("core i3" in s) or (" i3" in s) or s.startswith("i3")\<close>\<close>
  "nombra_i3 s = (py_in ''core i3'' s \<or> py_in '' i3'' s \<or> startswith s ''i3'')"

definition cpu_excluido_politica :: "string \<Rightarrow> bool \<times> string" where
  \<comment> \<open>\<open>_cpu_excluido_politica\<close>.  \<open>gen\<close> is \<open>None\<close> only if \<open>_infer_generation\<close> raises,
      which it never does: it returns its default instead.\<close>
  "cpu_excluido_politica name =
     (let s = py_lower name in
      if s = [] then (False, [])
      else if py_in ''pentium'' s \<or> py_in ''celeron'' s \<or> py_in ''atom'' s
        then (True, motivo_excluido)
      else
        let gen = Some (infer_generation name) in
        if nombra_i3 s then
          (case gen of
             None \<Rightarrow> (True, motivo_i3_sin_gen)
           | Some g \<Rightarrow> if g < 10 then (True, motivo_i3_anterior) else (False, []))
        else (False, []))"

text \<open>
  The values \<open>_disco_excluido_politica\<close> may be handed: an \<open>int\<close>, a \<open>bool\<close> (its
  annotation), or \<open>None\<close>, on which \<open>int(...)\<close> raises and the \<open>except\<close> branch runs.
\<close>

datatype flag_val = FInt int | FBool bool | FNone

datatype py_error = TypeError | ValueError | OverflowError

definition py_int :: "flag_val \<Rightarrow> py_error + int" where
  "py_int v = (case v of FInt n \<Rightarrow> Inr n | FBool b \<Rightarrow> Inr (if b then 1 else 0)
               | FNone \<Rightarrow> Inl TypeError)"

definition py_bool :: "flag_val \<Rightarrow> bool" where
  "py_bool v = (case v of FInt n \<Rightarrow> n \<noteq> 0 | FBool b \<Rightarrow> b | FNone \<Rightarrow> False)"

definition motivo_hdd :: string where
  "motivo_hdd =
     ''Disco HDD no permitido por pol'' @ [CHR 0xED] @ ''tica. Se requiere almacenamiento SSD.''"

definition disco_excluido_politica :: "flag_val \<Rightarrow> bool \<times> string" where
  \<comment> \<open>\<open>_disco_excluido_politica\<close>\<close>
  "disco_excluido_politica es_ssd_val =
     (let flag = (case py_int es_ssd_val of Inr n \<Rightarrow> n \<noteq> 0 | Inl _ \<Rightarrow> py_bool es_ssd_val)
      in if \<not> flag then (True, motivo_hdd) else (False, []))"

definition brands_api :: "string list" where
  "brands_api =
     [''lenovo'', ''hp'', ''dell'', ''asus'', ''acer'', ''msi'', ''apple'', ''huawei'',
      ''samsung'', ''microsoft'', ''razer'', ''alienware'']"

definition infer_brand :: "string \<Rightarrow> string option" where
  \<comment> \<open>\<open>_infer_brand\<close>\<close>
  "infer_brand text = map_option capitalize (find (\<lambda>b. py_in b (py_lower text)) brands_api)"


section \<open>vision\_integration: evidence extraction\<close>

text \<open>What the vision service returns for the submitted images (an external input).\<close>

record vision =
  brands :: "string list"
  objects :: "string list"
  tags :: "string list"
  ocr_lines :: "string list"

definition known_brands :: "string list" where
  "known_brands =
     [''acer'', ''apple'', ''asus'', ''dell'', ''hp'', ''huawei'', ''lenovo'', ''microsoft'',
      ''msi'', ''samsung'']"

definition inferir_marca :: "string list \<Rightarrow> string list \<Rightarrow> string option" where
  "inferir_marca prefer_brands lines =
     (case find (\<lambda>b. b \<noteq> []) prefer_brands of
        Some b \<Rightarrow> Some b
      | None \<Rightarrow>
          let text_all = py_lower (join_sp lines) in
          if py_in ''victus'' text_all then Some ''HP''
          else map_option capitalize (find (\<lambda>b. py_in b text_all) known_brands))"

definition rx_num_unidad :: "string \<Rightarrow> rx" where
  \<comment> \<open>\<open>(\d{1,3})\s*\<close> followed by the token\<close>
  "rx_num_unidad token = seq [Grp (Rep 1 (Some 3) is_digit), star is_space, lit token]"

fun buscar_num_unidad :: "string \<Rightarrow> (string \<times> int) list \<Rightarrow> int option" where
  \<comment> \<open>\<open>_buscar_num_unidad\<close>: the first pattern whose token occurs and whose number is found\<close>
  "buscar_num_unidad text [] = None"
| "buscar_num_unidad text ((token, multiplier) # ps) =
     (if py_in token text then
        (case re_search (rx_num_unidad token) text of
           Some m \<Rightarrow> Some (int_of_digits (group1 m) * multiplier)
         | None \<Rightarrow> buscar_num_unidad text ps)
      else buscar_num_unidad text ps)"

definition rx_gen_ocr :: rx where
  \<comment> \<open>\<open>i[3579]-?(\d{2})(\d{2,3})\<close>\<close>
  "rx_gen_ocr =
     seq [ch CHR ''i'', one_of ''3579'', opt (\<lambda>c. c = CHR ''-''),
          Grp (Rep 2 (Some 2) is_digit), Grp (Rep 2 (Some 3) is_digit)]"

definition rx_gpu :: "rx list" where
  \<comment> \<open>the five GPU model patterns, in the order in which they are tried\<close>
  "rx_gpu =
     [seq [lit ''rtx'', star is_space, Grp (Rep 3 (Some 4) is_digit)],
      seq [lit ''gtx'', star is_space, Grp (Rep 3 (Some 4) is_digit)],
      seq [lit ''rx'', star is_space, Grp (Rep 3 (Some 4) is_digit)],
      seq [lit ''radeon'', star is_space,
           Grp (Alt (seq [lit ''rx'', star is_space, Rep 3 (Some 4) is_digit])
                    (Rep 3 (Some 4) is_digit))],
      seq [lit ''geforce'', star is_space, Grp (Alt (lit ''rtx'') (lit ''gtx'')), star is_space,
           Grp (Rep 3 (Some 4) is_digit)]]"

fun first_search :: "rx list \<Rightarrow> string \<Rightarrow> (string \<times> string list) option" where
  \<comment> \<open>\<open>re.search(r1, t) or re.search(r2, t) or ...\<close>\<close>
  "first_search [] text = None"
| "first_search (r # rs) text =
     (case re_search r text of Some m \<Rightarrow> Some m | None \<Rightarrow> first_search rs text)"

record indicios =
  i_ram_gb :: "int option"
  i_capacidad_disco_gb :: "int option"
  i_generacion_procesador :: "int option"
  i_grafica_gamer_detectada :: int
  i_gpu_model_detectado :: "string option"

definition extraer_indicios_especificaciones :: "string list \<Rightarrow> indicios" where
  "extraer_indicios_especificaciones lines =
     (let text = py_lower (join_sp lines);
          ram = buscar_num_unidad text [(''gb ram'', 1), (''ram gb'', 1), (''ram'', 1)];
          capacidad = buscar_num_unidad text
                        [(''gb ssd'', 1), (''gb hdd'', 1), (''gb'', 1), (''tb'', 1024)];
          generacion =
            (case re_search rx_gen_ocr text of
               Some m \<Rightarrow> (let g = int_of_digits (group1 m)
                          in if 1 < g \<and> g < 20 then Some g else None)
             | None \<Rightarrow> None);
          gamer_kw = list_ex (\<lambda>k. py_in k text)
                       [''rtx'', ''gtx'', ''geforce'', ''radeon'', '' rx '', '' rx'', ''rx ''];
          gpu1 = (if gamer_kw then map_option (\<lambda>m. py_upper (fst m)) (first_search rx_gpu text)
                  else None);
          integrada = list_ex (\<lambda>k. py_in k text) [''intel hd'', ''intel uhd'', ''intel iris'']
      in \<lparr> i_ram_gb = ram,
           i_capacidad_disco_gb = capacidad,
           i_generacion_procesador = generacion,
           i_grafica_gamer_detectada = (if integrada then 0 else if gamer_kw then 1 else 0),
           i_gpu_model_detectado =
             (if integrada \<and> gpu1 = None then Some ''Intel integrado'' else gpu1) \<rparr>)"


section \<open>vision\_integration: damage inference\<close>

definition strip_accent_chr :: "char \<Rightarrow> char" where
  \<comment> \<open>canonical decomposition followed by removal of the combining mark; the characters
      below 192 have no decomposition\<close>
  "strip_accent_chr c =
     (if chr_in c 0 191 then c
      else if chr_in c 192 197 then CHR ''A'' else if c = CHR 0xC7 then CHR ''C''
      else if chr_in c 200 203 then CHR ''E'' else if chr_in c 204 207 then CHR ''I''
      else if c = CHR 0xD1 then CHR ''N'' else if chr_in c 210 214 then CHR ''O''
      else if chr_in c 217 220 then CHR ''U'' else if c = CHR 0xDD then CHR ''Y''
      else if chr_in c 224 229 then CHR ''a'' else if c = CHR 0xE7 then CHR ''c''
      else if chr_in c 232 235 then CHR ''e'' else if chr_in c 236 239 then CHR ''i''
      else if c = CHR 0xF1 then CHR ''n'' else if chr_in c 242 246 then CHR ''o''
      else if chr_in c 249 252 then CHR ''u'' else if c = CHR 0xFD \<or> c = CHR 0xFF then CHR ''y''
      else c)"

definition normalize_text :: "string \<Rightarrow> string" where
  \<comment> \<open>\<open>_normalize\<close>: without accents, then lower case\<close>
  "normalize_text s = py_lower (map strip_accent_chr s)"

definition needle_rx :: "string \<Rightarrow> rx" where
  \<comment> \<open>\<open>re.escape(n).replace("\\ ", r"\\s+")\<close>: every character of the needle stands for
      itself, except that a space becomes the pattern \<open>\\s+\<close>, which matches a backslash
      followed by one or more letters s\<close>
  "needle_rx n =
     seq (map (\<lambda>c. if c = CHR '' '' then Cat (ch CHR 0x5C) (Rep 1 None (\<lambda>x. x = CHR ''s''))
                    else ch c) n)"

definition contains_word :: "string \<Rightarrow> string \<Rightarrow> bool" where
  "contains_word haystack needle =
     (re_search (seq [Bnd, needle_rx (normalize_text needle), Bnd]) (normalize_text haystack) \<noteq> None)"

definition carcasa_danada_kw :: string where
  \<comment> \<open>the keyword for a damaged case, spelled with the letter n with tilde (code point F1)\<close>
  "carcasa_danada_kw = ''carcasa da'' @ [CHR 0xF1] @ ''ada''"

definition keywords_danio :: "(string \<times> string list) list" where
  \<comment> \<open>the table \<open>keywords\<close>, in its insertion order\<close>
  "keywords_danio =
     [(''pantalla_quebrada'',
         [''crack'', ''cracked'', ''shattered'', ''screen crack'', ''pantalla rota'',
          ''pantalla quebrada'']),
      (''carcasa_danada'',
         [''broken'', ''chipped'', ''dent'', ''bent'', ''abollado'', ''carcasa rota'',
          carcasa_danada_kw]),
      (''rayones'', [''scratch'', ''scratched'', ''rayado'', ''rayones'']),
      (''bisagra_rota'', [''hinge'', ''hinge broken'', ''bisagra rota'']),
      (''teclado_incompleto'',
         [''missing key'', ''missing keys'', ''teclas faltantes'', ''tecla faltante'']),
      (''manchas'', [''stain'', ''stained'', ''smudge'', ''manchas''])]"

definition factors :: "(string \<times> real) list" where
  "factors =
     [(''pantalla_quebrada'', 0.60), (''carcasa_danada'', 0.85), (''rayones'', 0.90),
      (''bisagra_rota'', 0.80), (''teclado_incompleto'', 0.85), (''manchas'', 0.92)]"

definition factor_de :: "string \<Rightarrow> real" where
  \<comment> \<open>\<open>factors.get(key, 1.0)\<close>\<close>
  "factor_de key = (case map_of factors key of Some f \<Rightarrow> f | None \<Rightarrow> 1)"

record evidencia =
  tipo :: string
  keyword :: "string option"
  origen :: "string option"
  muestra :: "string option"

fun buscar_tags_objs :: "string \<Rightarrow> string \<Rightarrow> string list \<Rightarrow> (string \<times> string) option" where
  \<comment> \<open>the fallback loop: each keyword against the tags, then against the objects\<close>
  "buscar_tags_objs text_tags text_objs [] = None"
| "buscar_tags_objs text_tags text_objs (kw # kws) =
     (if contains_word text_tags kw then Some (''tags'', kw)
      else if contains_word text_objs kw then Some (''objects'', kw)
      else buscar_tags_objs text_tags text_objs kws)"

definition buscar_danio :: "vision \<Rightarrow> string list \<Rightarrow> (string \<times> string \<times> string option) option" where
  \<comment> \<open>the two search loops of one defect kind: source, keyword and sample line\<close>
  "buscar_danio v kws =
     (let text_ocr = join_sp (ocr_lines v) in
      case find (\<lambda>kw. contains_word text_ocr kw) kws of
        Some kw \<Rightarrow>
          Some (''ocr'', kw, map_option py_strip (find (\<lambda>line. contains_word line kw) (ocr_lines v)))
      | None \<Rightarrow>
          map_option (\<lambda>(fuente, kw). (fuente, kw, None))
            (buscar_tags_objs (join_sp (tags v)) (join_sp (objects v)) kws))"

definition en_alguna_fuente :: "vision \<Rightarrow> string list \<Rightarrow> bool" where
  \<comment> \<open>\<open>any(... text_ocr ...) or any(... text_tags ...) or any(... text_objs ...)\<close>\<close>
  "en_alguna_fuente v terms =
     (list_ex (\<lambda>t. contains_word (join_sp (ocr_lines v)) t) terms
      \<or> list_ex (\<lambda>t. contains_word (join_sp (tags v)) t) terms
      \<or> list_ex (\<lambda>t. contains_word (join_sp (objects v)) t) terms)"

definition coocurrencia_ok :: "vision \<Rightarrow> string \<Rightarrow> bool" where
  \<comment> \<open>the co-occurrence rules that keep or discard a candidate of the two guarded kinds\<close>
  "coocurrencia_ok v key =
     (if key = ''carcasa_danada'' then
        en_alguna_fuente v [''carcasa rota'', carcasa_danada_kw]
        \<or> en_alguna_fuente v [''carcasa'', ''case'', ''chassis'', ''casing'', ''shell'']
      else if key = ''pantalla_quebrada'' then en_alguna_fuente v [''pantalla'', ''screen'']
      else True)"

definition detectar_danio ::
  "vision \<Rightarrow> string \<Rightarrow> string list \<Rightarrow> (string \<times> string \<times> string option) option" where
  \<comment> \<open>the value of \<open>found\<close> at the end of an iteration, with the evidence when it is true\<close>
  "detectar_danio v key kws =
     (case buscar_danio v kws of
        None \<Rightarrow> None
      | Some hit \<Rightarrow> if coocurrencia_ok v key then Some hit else None)"

definition replace_underscore :: "string \<Rightarrow> string" where
  \<comment> \<open>\<open>key.replace("_", " ")\<close>\<close>
  "replace_underscore s = map (\<lambda>c. if c = CHR ''_'' then CHR '' '' else c) s"

record danios =
  danios_detectados :: "(string \<times> int) list"
  factor_danio :: real
  motivos :: "string list"
  evidencias :: "evidencia list"

definition paso_danio :: "vision \<Rightarrow> danios \<Rightarrow> string \<times> string list \<Rightarrow> danios" where
  \<comment> \<open>one iteration of the loop over the defect kinds\<close>
  "paso_danio v acc kv =
     (case kv of (key, kws) \<Rightarrow>
        (case detectar_danio v key kws of
           None \<Rightarrow> acc\<lparr> danios_detectados := danios_detectados acc @ [(key, 0)] \<rparr>
         | Some (fuente, kw, m) \<Rightarrow>
             acc\<lparr> danios_detectados := danios_detectados acc @ [(key, 1)],
                  factor_danio := factor_danio acc * factor_de key,
                  motivos := motivos acc @ [replace_underscore key],
                  evidencias := evidencias acc
                    @ [\<lparr> tipo = key, keyword = Some kw, origen = Some fuente, muestra = m \<rparr>] \<rparr>))"

definition inferir_danios :: "vision \<Rightarrow> danios" where
  \<comment> \<open>\<open>inferir_danios(tags, objects, ocr_lines)\<close>; the three lists are the fields of \<open>v\<close>\<close>
  "inferir_danios v =
     (let acc = foldl (paso_danio v)
                  \<lparr> danios_detectados = [], factor_danio = 1, motivos = [], evidencias = [] \<rparr>
                  keywords_danio
      in acc\<lparr> factor_danio := max (factor_danio acc) 0.50 \<rparr>)"


section \<open>vision\_integration: the feature vector\<close>

text \<open>
  \<open>entrada_usuario\<close> is a dictionary; \<open>.get(k)\<close> is \<open>None\<close> both for a missing key and
  for a key holding \<open>None\<close>, so each entry is an optional integer.  The fields of the
  feature dictionary carry the prefix \<open>f_\<close>.
\<close>

record entrada_usuario =
  u_es_ssd :: "int option"
  u_capacidad_disco_gb :: "int option"
  u_ram_gb :: "int option"
  u_generacion_procesador :: "int option"
  u_procesador_score :: "int option"
  u_tiene_grafica :: "int option"
  u_grafica_gamer :: "int option"
  u_marca_score :: "int option"

record features =
  f_marca_score :: "int option"
  f_es_ssd :: "int option"
  f_capacidad_disco_gb :: int
  f_ram_gb :: int
  f_generacion_procesador :: int
  f_procesador_score :: int
  f_tiene_grafica :: int
  f_marca_detectada :: "string option"
  f_ocr_texto :: string
  f_gpu_detectada :: "string option"

definition py_or :: "int option \<Rightarrow> int option \<Rightarrow> int option" where
  \<comment> \<open>\<open>a or b\<close>: \<open>a\<close> unless it is \<open>None\<close> or \<open>0\<close>\<close>
  "py_or a b = (case a of None \<Rightarrow> b | Some x \<Rightarrow> if x \<noteq> 0 then Some x else b)"

definition or_default :: "int option \<Rightarrow> int \<Rightarrow> int" where
  \<comment> \<open>\<open>a or d\<close> for a literal \<open>d\<close>\<close>
  "or_default a d = (case a of None \<Rightarrow> d | Some x \<Rightarrow> if x \<noteq> 0 then x else d)"

definition marca_score_map_default :: "(string \<times> int) list" where
  "marca_score_map_default =
     [(''Lenovo'', 5), (''HP'', 5), (''Dell'', 5), (''Asus'', 4), (''Acer'', 4), (''MSI'', 4),
      (''Apple'', 6), (''Huawei'', 4), (''Samsung'', 4), (''Microsoft'', 5)]"

definition construir_features_desde_vision :: "vision \<Rightarrow> entrada_usuario \<Rightarrow> features" where
  "construir_features_desde_vision vision_result entrada =
     (let marca = inferir_marca (brands vision_result) (ocr_lines vision_result);
          ind = extraer_indicios_especificaciones (ocr_lines vision_result);
          grafica_flag =
            (case u_grafica_gamer entrada of
               Some g \<Rightarrow> g
             | None \<Rightarrow>
                 (case u_tiene_grafica entrada of
                    Some g \<Rightarrow> g
                  | None \<Rightarrow> if i_grafica_gamer_detectada ind \<noteq> 0 then 1 else 0))
      in \<lparr> f_marca_score =
             py_or (u_marca_score entrada)
               (case marca of None \<Rightarrow> Some 4 | Some m \<Rightarrow> map_of marca_score_map_default m),
           f_es_ssd = u_es_ssd entrada,
           f_capacidad_disco_gb =
             or_default (py_or (u_capacidad_disco_gb entrada) (i_capacidad_disco_gb ind)) 256,
           f_ram_gb = or_default (py_or (u_ram_gb entrada) (i_ram_gb ind)) 8,
           f_generacion_procesador =
             or_default (py_or (u_generacion_procesador entrada) (i_generacion_procesador ind)) 10,
           f_procesador_score = or_default (u_procesador_score entrada) 4,
           f_tiene_grafica = (if grafica_flag \<noteq> 0 then 1 else 0),
           f_marca_detectada = marca,
           f_ocr_texto = join_sp (ocr_lines vision_result),
           f_gpu_detectada = i_gpu_model_detectado ind \<rparr>)"


section \<open>Floating-point values\<close>

text \<open>
  The prices are floating-point numbers: the predicted price is the \<open>numpy.float64\<close>
  that the model's \<open>predict\<close> returns, and the products and the quotient formed with it
  follow IEEE 754, where no operation raises: a division by zero gives an infinity or
  a NaN, and every comparison with a NaN is false.  A value is a finite real number
  (\<open>Fin 0\<close> is the positive zero), the negative zero, an infinity or NaN.  Finite results
  are exact: rounding, overflow and underflow are not modelled.
\<close>

datatype pyfloat = Fin real | NZero | PInf | NInf | NaN

definition valor :: "pyfloat \<Rightarrow> real" where
  \<comment> \<open>the number a finite value stands for\<close>
  "valor a = (case a of Fin r \<Rightarrow> r | _ \<Rightarrow> 0)"

definition negativo :: "pyfloat \<Rightarrow> bool" where
  \<comment> \<open>the sign bit\<close>
  "negativo a = (case a of Fin r \<Rightarrow> r < 0 | NZero \<Rightarrow> True | PInf \<Rightarrow> False | NInf \<Rightarrow> True
                 | NaN \<Rightarrow> False)"

definition es_cero :: "pyfloat \<Rightarrow> bool" where
  "es_cero a = (a = Fin 0 \<or> a = NZero)"

definition es_inf :: "pyfloat \<Rightarrow> bool" where
  "es_inf a = (a = PInf \<or> a = NInf)"

definition infinito :: "bool \<Rightarrow> pyfloat" where
  \<comment> \<open>the infinity of the given sign\<close>
  "infinito neg = (if neg then NInf else PInf)"

definition finito :: "bool \<Rightarrow> real \<Rightarrow> pyfloat" where
  \<comment> \<open>the finite value of the given sign and magnitude; the sign matters for a zero only\<close>
  "finito neg r = (if r = 0 then (if neg then NZero else Fin 0) else Fin r)"

definition fmul :: "pyfloat \<Rightarrow> pyfloat \<Rightarrow> pyfloat" where
  \<comment> \<open>\<open>a * b\<close>\<close>
  "fmul a b =
     (if a = NaN \<or> b = NaN then NaN
      else if (es_inf a \<and> es_cero b) \<or> (es_cero a \<and> es_inf b) then NaN
      else if es_inf a \<or> es_inf b then infinito (negativo a \<noteq> negativo b)
      else finito (negativo a \<noteq> negativo b) (valor a * valor b))"

definition fdiv :: "pyfloat \<Rightarrow> pyfloat \<Rightarrow> pyfloat" where
  \<comment> \<open>\<open>a / b\<close> with a \<open>numpy.float64\<close> divisor: never raises\<close>
  "fdiv a b =
     (if a = NaN \<or> b = NaN then NaN
      else if (es_inf a \<and> es_inf b) \<or> (es_cero a \<and> es_cero b) then NaN
      else if es_inf a then infinito (negativo a \<noteq> negativo b)
      else if es_inf b then finito (negativo a \<noteq> negativo b) 0
      else if es_cero b then infinito (negativo a \<noteq> negativo b)
      else finito (negativo a \<noteq> negativo b) (valor a / valor b))"

definition flt :: "pyfloat \<Rightarrow> pyfloat \<Rightarrow> bool" where
  \<comment> \<open>\<open>a < b\<close>; the two zeros are equal\<close>
  "flt a b =
     (case a of
        NaN \<Rightarrow> False
      | PInf \<Rightarrow> False
      | NInf \<Rightarrow> (b \<noteq> NaN \<and> b \<noteq> NInf)
      | _ \<Rightarrow> (case b of NaN \<Rightarrow> False | NInf \<Rightarrow> False | PInf \<Rightarrow> True
               | _ \<Rightarrow> valor a < valor b))"

definition fgt :: "pyfloat \<Rightarrow> pyfloat \<Rightarrow> bool" where
  \<comment> \<open>\<open>a > b\<close>\<close>
  "fgt a b = flt b a"

definition py_max :: "pyfloat \<Rightarrow> pyfloat \<Rightarrow> pyfloat" where
  \<comment> \<open>\<open>max(a, b)\<close>: the second argument only if it is greater than the first\<close>
  "py_max a b = (if fgt b a then b else a)"


section \<open>modelo\_prediccion: the predictor\<close>

text \<open>
  The values of the feature dictionary, and the dictionary itself as the list of its
  items.  A key whose value is \<open>None\<close> is present in the dictionary.
\<close>

datatype fval = VNone | VInt int | VStr string

definition v_opt_int :: "int option \<Rightarrow> fval" where
  "v_opt_int a = (case a of None \<Rightarrow> VNone | Some x \<Rightarrow> VInt x)"

definition v_opt_str :: "string option \<Rightarrow> fval" where
  "v_opt_str a = (case a of None \<Rightarrow> VNone | Some x \<Rightarrow> VStr x)"

definition features_items :: "features \<Rightarrow> (string \<times> fval) list" where
  "features_items f =
     [(''marca_score'', v_opt_int (f_marca_score f)),
      (''es_ssd'', v_opt_int (f_es_ssd f)),
      (''capacidad_disco_gb'', VInt (f_capacidad_disco_gb f)),
      (''ram_gb'', VInt (f_ram_gb f)),
      (''generacion_procesador'', VInt (f_generacion_procesador f)),
      (''procesador_score'', VInt (f_procesador_score f)),
      (''tiene_grafica'', VInt (f_tiene_grafica f)),
      (''_marca_detectada'', v_opt_str (f_marca_detectada f)),
      (''_ocr_texto'', VStr (f_ocr_texto f)),
      (''_gpu_detectada'', v_opt_str (f_gpu_detectada f))]"

text \<open>
  The trained model is an external object: \<open>predict\<close> stands for building the array and
  calling \<open>self.modelo.predict\<close>, and returns a price or raises.  \<open>cargar_modelo\<close> reads
  it from the model file, which may be missing.
\<close>

record modelo_precio =
  modelo_entrenado :: bool
  caracteristicas :: "string list"
  predict :: "fval list \<Rightarrow> py_error + pyfloat"

definition cargar_modelo ::
  "(string list \<times> (fval list \<Rightarrow> py_error + pyfloat)) option \<Rightarrow> modelo_precio" where
  "cargar_modelo archivo =
     (case archivo of
        None \<Rightarrow> \<lparr> modelo_entrenado = False, caracteristicas = [], predict = (\<lambda>_. Inl TypeError) \<rparr>
      | Some (cs, p) \<Rightarrow> \<lparr> modelo_entrenado = True, caracteristicas = cs, predict = p \<rparr>)"

datatype log_msg =
    NoHayModelo
  | FaltaCaracteristica string
  | ErrorAlPredecir
  | PrediccionRealizada pyfloat

fun recoger_valores :: "(string \<times> fval) list \<Rightarrow> string list \<Rightarrow> string + fval list" where
  \<comment> \<open>the loop over \<open>self.caracteristicas\<close>: the first name that is not a key, or the values\<close>
  "recoger_valores dict [] = Inr []"
| "recoger_valores dict (feature # rest) =
     (case map_of dict feature of
        None \<Rightarrow> Inl feature
      | Some v \<Rightarrow> (case recoger_valores dict rest of Inl e \<Rightarrow> Inl e | Inr vs \<Rightarrow> Inr (v # vs)))"

definition predecir_precio ::
  "modelo_precio \<Rightarrow> (string \<times> fval) list \<Rightarrow> pyfloat option \<times> log_msg" where
  \<comment> \<open>the returned price and the message that is logged\<close>
  "predecir_precio m dict =
     (if \<not> modelo_entrenado m then (None, NoHayModelo)
      else case recoger_valores dict (caracteristicas m) of
             Inl feature \<Rightarrow> (None, FaltaCaracteristica feature)
           | Inr valores \<Rightarrow>
               (case predict m valores of
                  Inl _ \<Rightarrow> (None, ErrorAlPredecir)
                | Inr precio \<Rightarrow> (Some precio, PrediccionRealizada precio)))"


section \<open>vision\_integration: price composition\<close>

record market_rules =
  factor_compraventa :: real
  min_prestamo :: real
  aplicar_factor_ml :: bool

definition MARKET_RULES :: market_rules where
  \<comment> \<open>config.py\<close>
  "MARKET_RULES = \<lparr> factor_compraventa = 0.44, min_prestamo = 100000, aplicar_factor_ml = True \<rparr>"

record detalle =
  d_precio_base_ml :: "pyfloat option"
  d_factor_danio :: real
  d_precio_post_danio :: "pyfloat option"
  d_danios :: "(string \<times> int) list"
  d_motivos_danios :: "string list"
  d_factor_compraventa :: pyfloat
  d_min_prestamo :: real
  d_objetivo_precio :: "pyfloat option"
  d_evidencias_danio :: "evidencia list"
  d_precio_mercado_sin_minimo :: "pyfloat option"

record resultado =
  precio_predicho :: "pyfloat option"
  r_features :: features
  r_vision :: vision
  r_detalle :: detalle

definition factor_efectivo :: "pyfloat option \<Rightarrow> pyfloat option \<Rightarrow> pyfloat option \<Rightarrow> pyfloat" where
  \<comment> \<open>the market factor: the override or the configured one, replaced by
      \<open>objetivo_precio / precio\<close> when that quotient is greater than 0.  The quotient has a
      \<open>numpy.float64\<close> divisor and does not raise, so the \<open>except\<close> branch is never taken\<close>
  "factor_efectivo precio factor_mercado objetivo =
     (let factor = (case factor_mercado of
                      Some f \<Rightarrow> f
                    | None \<Rightarrow> Fin (factor_compraventa MARKET_RULES))
      in case (precio, objetivo) of
           (Some p, Some obj) \<Rightarrow>
             (let calculado = fdiv obj p in if fgt calculado (Fin 0) then calculado else factor)
         | _ \<Rightarrow> factor)"

definition componer_precio ::
  "danios \<Rightarrow> pyfloat option \<Rightarrow> pyfloat option \<Rightarrow> pyfloat option \<Rightarrow> pyfloat option \<times> detalle" where
  \<comment> \<open>the part of \<open>predecir_precio_con_imagenes\<close> after the prediction: the final price
      and the \<open>detalle\<close> dictionary\<close>
  "componer_precio dn precio_base_ml factor_mercado objetivo =
     (let danio_factor = (if factor_danio dn = 0 then 1 else factor_danio dn);
          precio_post_danio = map_option (\<lambda>p. fmul p (Fin danio_factor)) precio_base_ml;
          factor = factor_efectivo precio_post_danio factor_mercado objetivo;
          minimo = min_prestamo MARKET_RULES;
          sin_minimo = (if aplicar_factor_ml MARKET_RULES
                        then map_option (\<lambda>p. fmul p factor) precio_post_danio else None);
          precio = (case sin_minimo of
                      Some x \<Rightarrow> Some (py_max (Fin minimo) x)
                    | None \<Rightarrow> precio_post_danio)
      in (precio,
          \<lparr> d_precio_base_ml = precio_base_ml,
            d_factor_danio = factor_danio dn,
            d_precio_post_danio = precio_post_danio,
            d_danios = danios_detectados dn,
            d_motivos_danios = motivos dn,
            d_factor_compraventa = factor,
            d_min_prestamo = minimo,
            d_objetivo_precio = objetivo,
            d_evidencias_danio = evidencias dn,
            d_precio_mercado_sin_minimo = sin_minimo \<rparr>))"

fun combinar :: "vision \<Rightarrow> (string + vision) list \<Rightarrow> string + vision" where
  \<comment> \<open>the loop over the images: an analysis that raises ends the call with its message\<close>
  "combinar acc [] = Inr acc"
| "combinar acc (Inl err # rest) = Inl err"
| "combinar acc (Inr r # rest) =
     combinar \<lparr> brands = brands acc @ brands r, objects = objects acc @ objects r,
               tags = tags acc @ tags r, ocr_lines = ocr_lines acc @ ocr_lines r \<rparr> rest"

definition predecir_precio_con_imagenes ::
  "(string + vision) list \<Rightarrow> entrada_usuario
   \<Rightarrow> (string list \<times> (fval list \<Rightarrow> py_error + pyfloat)) option
   \<Rightarrow> pyfloat option \<Rightarrow> pyfloat option \<Rightarrow> string + resultado" where
  \<comment> \<open>the images are given by what the vision service answers for each of them,
      the model file by its content\<close>
  "predecir_precio_con_imagenes analisis entrada archivo_modelo factor_mercado objetivo =
     (case combinar \<lparr> brands = [], objects = [], tags = [], ocr_lines = [] \<rparr> analisis of
        Inl err \<Rightarrow> Inl err
      | Inr combined \<Rightarrow>
          let feats = construir_features_desde_vision combined entrada;
              dn = inferir_danios combined;
              precio = fst (predecir_precio (cargar_modelo archivo_modelo) (features_items feats));
              (final, det) = componer_precio dn precio factor_mercado objetivo
          in Inr \<lparr> precio_predicho = final, r_features = feats, r_vision = combined,
                   r_detalle = det \<rparr>)"


section \<open>api\_server: the valuation endpoint\<close>

definition digit_chr :: "nat \<Rightarrow> char" where
  \<comment> \<open>the character of a decimal digit\<close>
  "digit_chr d = ''0123456789'' ! d"

fun dec_digits :: "nat \<Rightarrow> string" where
  \<comment> \<open>the decimal digits of a natural number\<close>
  "dec_digits n =
     (if n < 10 then [digit_chr n] else dec_digits (n div 10) @ [digit_chr (n mod 10)])"

declare dec_digits.simps [simp del]

fun miles_rev :: "string \<Rightarrow> string" where
  \<comment> \<open>a comma after every third digit, on the reversed digits\<close>
  "miles_rev (a # b # c # d # rest) = a # b # c # CHR '','' # miles_rev (d # rest)"
| "miles_rev ds = ds"

definition formato_miles :: "int \<Rightarrow> string" where
  \<comment> \<open>the format \<open>{n:,}\<close> of an integer\<close>
  "formato_miles n =
     (if n < 0 then ''-'' else []) @ rev (miles_rev (rev (dec_digits (nat \<bar>n\<bar>))))"

definition py_round :: "real \<Rightarrow> int" where
  \<comment> \<open>\<open>round(x)\<close>: to the nearest integer, a tie to the even one\<close>
  "py_round x =
     (let f = \<lfloor>x\<rfloor>; d = x - of_int f
      in if d < 1/2 then f else if d > 1/2 then f + 1 else if even f then f else f + 1)"

definition mensaje_bloqueo :: string where
  "mensaje_bloqueo =
     ''No es posible realizar el contrato, para mayor informaci'' @ [CHR 0xF3]
     @ ''n comunicarse a la l'' @ [CHR 0xED] @ ''nea de atenci'' @ [CHR 0xF3]
     @ ''n o a una sede f'' @ [CHR 0xED] @ ''sica''"

definition error_infinito :: string where
  "error_infinito = ''cannot convert float infinity to integer''"

definition error_nan :: string where
  "error_nan = ''cannot convert float NaN to integer''"

definition int_round :: "pyfloat \<Rightarrow> (py_error \<times> string) + int" where
  \<comment> \<open>\<open>int(round(x))\<close>: an infinity and NaN have no integer\<close>
  "int_round x =
     (case x of
        Fin r \<Rightarrow> Inr (py_round r)
      | NZero \<Rightarrow> Inr 0
      | PInf \<Rightarrow> Inl (OverflowError, error_infinito)
      | NInf \<Rightarrow> Inl (OverflowError, error_infinito)
      | NaN \<Rightarrow> Inl (ValueError, error_nan))"

definition mensaje_avaluo :: "int \<Rightarrow> string" where
  \<comment> \<open>the message around the rounded price\<close>
  "mensaje_avaluo n =
     ''Tu aval'' @ [CHR 0xFA] @ ''o del pc enviado es de $'' @ formato_miles n
     @ ''. '' @ [CHR 0xBF] @ ''Deseas continuar con el contrato?''"

definition aviso_procesador :: string where
  "aviso_procesador =
     ''El procesador ingresado no coincide con familias comunes (Celeron, Pentium, Core i*, Ryzen *). Verifica el nombre.''"

definition aviso_marca :: string where
  "aviso_marca =
     ''No se reconoce la marca en '' @ [CHR 0x27] @ ''Marca / Modelo'' @ [CHR 0x27]
     @ ''. Ingresa HP, Dell, Lenovo, Asus, Acer, etc., o deja el campo vac'' @ [CHR 0xED] @ ''o.''"

definition error_sin_imagenes :: string where
  "error_sin_imagenes = ''Debes subir al menos 1 imagen''"

definition error_no_numerico :: string where
  "error_no_numerico =
     ''No se pudo calcular el precio (precio_predicho no num'' @ [CHR 0xE9] @ ''rico)''"

definition marca_score_map_api :: "(string \<times> int) list" where
  "marca_score_map_api =
     [(''Lenovo'', 5), (''HP'', 5), (''Dell'', 5), (''Asus'', 4), (''Acer'', 4), (''MSI'', 4),
      (''Apple'', 6), (''Huawei'', 4), (''Samsung'', 4), (''Microsoft'', 5), (''Razer'', 5),
      (''Alienware'', 6)]"

text \<open>
  The form fields of a request; each image is given by the analysis it receives.  A
  response is the status and the dictionary that \<open>avaluo\<close> returns; its encoding as JSON
  by the web framework is not modelled.
\<close>

record solicitud =
  imagenes :: "(string + vision) list"
  es_ssd :: int
  capacidad_disco_gb :: int
  ram_gb :: int
  marca_modelo :: "string option"
  procesador :: "string option"
  tiene_grafica :: int
  factor_mercado :: "pyfloat option"
  objetivo_precio :: "pyfloat option"

record detalle_cliente =
  c_precio_base_ml :: "pyfloat option"
  c_precio_post_danio :: "pyfloat option"
  c_precio_mercado_sin_minimo :: "pyfloat option"
  c_min_prestamo :: real

record cuerpo =
  c_precio_predicho :: pyfloat
  bloqueado_por_minimo :: bool
  mensaje_cliente :: string
  advertencias :: "string list"
  c_detalle :: detalle_cliente

datatype respuesta = Resp400 string | Resp500 string | RespOk cuerpo

definition texto :: "string option \<Rightarrow> string" where
  \<comment> \<open>\<open>x or ""\<close>\<close>
  "texto x = (case x of None \<Rightarrow> [] | Some t \<Rightarrow> t)"

definition bloqueo_minimo :: "detalle \<Rightarrow> bool" where
  \<comment> \<open>\<open>bloqueado_minimo\<close>: the price before the floor is below the floor\<close>
  "bloqueo_minimo det =
     (case d_precio_mercado_sin_minimo det of
        None \<Rightarrow> False
      | Some x \<Rightarrow> flt x (Fin (d_min_prestamo det)))"

definition entrada_de :: "solicitud \<Rightarrow> entrada_usuario" where
  \<comment> \<open>the dictionary \<open>entrada_usuario\<close> that \<open>avaluo\<close> builds\<close>
  "entrada_de req =
     \<lparr> u_es_ssd = Some (es_ssd req),
       u_capacidad_disco_gb = Some (capacidad_disco_gb req),
       u_ram_gb = Some (ram_gb req),
       u_generacion_procesador = Some (infer_generation (texto (procesador req))),
       u_procesador_score = Some (infer_cpu_score (texto (procesador req))),
       u_tiene_grafica = Some (tiene_grafica req),
       u_grafica_gamer = None,
       u_marca_score =
         (case infer_brand (texto (marca_modelo req)) of
            None \<Rightarrow> None
          | Some m \<Rightarrow> map_of marca_score_map_api m) \<rparr>"

definition decision_cliente :: "solicitud \<Rightarrow> detalle \<Rightarrow> pyfloat \<Rightarrow> string + cuerpo" where
  \<comment> \<open>the last part of \<open>avaluo\<close>: the three blocks, the client message, the advisories
      and the body of the response.  The message of an accepted valuation rounds the price;
      when that raises, the result is the text of the exception.  The key
      \<open>precio_base_ml\<close> is read from \<open>resultado\<close>, which does not have it\<close>
  "decision_cliente req det precio_final =
     (let bloqueado_minimo = bloqueo_minimo det;
          (bloqueado_cpu, motivo_cpu) = cpu_excluido_politica (texto (procesador req));
          (bloqueado_disco, motivo_disco) = disco_excluido_politica (FInt (es_ssd req));
          bloqueado = (bloqueado_minimo \<or> bloqueado_cpu \<or> bloqueado_disco)
      in case (if bloqueado then Inr mensaje_bloqueo
               else case int_round precio_final of
                      Inl (e, msg) \<Rightarrow> Inl msg
                    | Inr n \<Rightarrow> Inr (mensaje_avaluo n)) of
           Inl msg \<Rightarrow> Inl msg
         | Inr mensaje \<Rightarrow>
             Inr \<lparr> c_precio_predicho = precio_final,
                   bloqueado_por_minimo = bloqueado,
                   mensaje_cliente = mensaje,
                   advertencias =
                     (if texto (procesador req) \<noteq> [] \<and> \<not> cpu_is_known (texto (procesador req))
                      then [aviso_procesador] else [])
                     @ (if motivo_cpu \<noteq> [] then [motivo_cpu] else [])
                     @ (if motivo_disco \<noteq> [] then [motivo_disco] else [])
                     @ (if texto (marca_modelo req) \<noteq> []
                           \<and> infer_brand (texto (marca_modelo req)) = None
                        then [aviso_marca] else []),
                   c_detalle =
                     \<lparr> c_precio_base_ml = None,
                       c_precio_post_danio = d_precio_post_danio det,
                       c_precio_mercado_sin_minimo = d_precio_mercado_sin_minimo det,
                       c_min_prestamo = d_min_prestamo det \<rparr> \<rparr>)"

definition avaluo ::
  "(string list \<times> (fval list \<Rightarrow> py_error + pyfloat)) option \<Rightarrow> solicitud \<Rightarrow> respuesta" where
  \<comment> \<open>the model file is given by its content; a missing price is the response 500 of the
      conversion \<open>float(precio_final)\<close>, and an exception is the response 500 with its text\<close>
  "avaluo archivo_modelo req =
     (if imagenes req = [] then Resp400 error_sin_imagenes
      else case predecir_precio_con_imagenes (imagenes req) (entrada_de req) archivo_modelo
                  (factor_mercado req) (objetivo_precio req) of
        Inl err \<Rightarrow> Resp500 err
      | Inr res \<Rightarrow>
          (case precio_predicho res of
             None \<Rightarrow> Resp500 error_no_numerico
           | Some precio_final \<Rightarrow>
               (case decision_cliente req (r_detalle res) precio_final of
                  Inl err \<Rightarrow> Resp500 err
                | Inr body \<Rightarrow> RespOk body)))"

section \<open>Notions used in the statements\<close>

definition sin_danio :: "danios \<Rightarrow> bool" where
  \<comment> \<open>no defect kind matched: every flag of \<open>danios_detectados\<close> is 0\<close>
  "sin_danio dn = list_all (\<lambda>kd. snd kd = 0) (danios_detectados dn)"

definition danio_inv :: "danios \<Rightarrow> bool" where
  \<comment> \<open>the invariant of the loop over the defect kinds\<close>
  "danio_inv acc =
     (0 < factor_danio acc \<and> factor_danio acc \<le> 1
      \<and> ((factor_danio acc = 1) = sin_danio acc)
      \<and> ((motivos acc = []) = sin_danio acc))"


section \<open>Sample inputs\<close>

definition vision_vacia :: vision where
  \<comment> \<open>the analysis of a picture with no logo, label or text\<close>
  "vision_vacia = \<lparr> brands = [], objects = [], tags = [], ocr_lines = [] \<rparr>"

definition ejemplo_mancha :: vision where
  \<comment> \<open>a picture on which the word \<open>Stain\<close> is read\<close>
  "ejemplo_mancha = \<lparr> brands = [], objects = [], tags = [], ocr_lines = [''Stain''] \<rparr>"

definition danios_ninguno :: danios where
  \<comment> \<open>the assessment in which no defect kind matched\<close>
  "danios_ninguno =
     \<lparr> danios_detectados =
         [(''pantalla_quebrada'', 0), (''carcasa_danada'', 0), (''rayones'', 0),
          (''bisagra_rota'', 0), (''teclado_incompleto'', 0), (''manchas'', 0)],
       factor_danio = 1, motivos = [], evidencias = [] \<rparr>"

definition ausente :: "int option \<Rightarrow> bool" where
  \<comment> \<open>a value that the operator \<open>or\<close> skips: \<open>None\<close> or \<open>0\<close>\<close>
  "ausente a = (a = None \<or> a = Some 0)"

definition claves_features :: "string list" where
  \<comment> \<open>the keys of the feature dictionary\<close>
  "claves_features =
     [''marca_score'', ''es_ssd'', ''capacidad_disco_gb'', ''ram_gb'', ''generacion_procesador'',
      ''procesador_score'', ''tiene_grafica'', ''_marca_detectada'', ''_ocr_texto'',
      ''_gpu_detectada'']"

definition valores_de :: "(string \<times> fval) list \<Rightarrow> string list \<Rightarrow> fval list" where
  \<comment> \<open>the values of the dictionary at the given keys, \<open>None\<close> included\<close>
  "valores_de dict cs = map (\<lambda>k. case map_of dict k of Some v \<Rightarrow> v | None \<Rightarrow> VNone) cs"

definition ejemplo_ram :: vision where
  \<comment> \<open>a sticker that reads \<open>16 GB RAM\<close>\<close>
  "ejemplo_ram = \<lparr> brands = [], objects = [], tags = [], ocr_lines = [''16 GB RAM''] \<rparr>"

definition entrada_ram_cero :: entrada_usuario where
  \<comment> \<open>a user who supplies 0 for the RAM size and no processor generation\<close>
  "entrada_ram_cero =
     \<lparr> u_es_ssd = Some 1, u_capacidad_disco_gb = Some 512, u_ram_gb = Some 0,
       u_generacion_procesador = None, u_procesador_score = Some 6, u_tiene_grafica = Some 0,
       u_grafica_gamer = None, u_marca_score = None \<rparr>"

definition entrada_sin_ssd :: entrada_usuario where
  \<comment> \<open>a caller that omits \<open>es_ssd\<close>\<close>
  "entrada_sin_ssd =
     \<lparr> u_es_ssd = None, u_capacidad_disco_gb = Some 512, u_ram_gb = Some 16,
       u_generacion_procesador = Some 11, u_procesador_score = Some 6, u_tiene_grafica = Some 0,
       u_grafica_gamer = None, u_marca_score = Some 5 \<rparr>"

definition CARACTERISTICAS_MODELO :: "string list" where
  \<comment> \<open>config.py: the columns a trained model expects\<close>
  "CARACTERISTICAS_MODELO =
     [''marca_score'', ''es_ssd'', ''capacidad_disco_gb'', ''ram_gb'', ''generacion_procesador'',
      ''procesador_score'', ''tiene_grafica'']"

definition predict_estricto :: "pyfloat \<Rightarrow> fval list \<Rightarrow> py_error + pyfloat" where
  \<comment> \<open>a model that rejects a row holding \<open>None\<close> and otherwise answers a fixed price\<close>
  "predict_estricto precio vs = (if VNone \<in> set vs then Inl ValueError else Inr precio)"

definition predict_tolerante :: "pyfloat \<Rightarrow> fval list \<Rightarrow> py_error + pyfloat" where
  \<comment> \<open>a model that answers a fixed price for every row\<close>
  "predict_tolerante precio vs = Inr precio"

definition archivo_estricto ::
  "pyfloat \<Rightarrow> (string list \<times> (fval list \<Rightarrow> py_error + pyfloat)) option" where
  "archivo_estricto precio = Some (CARACTERISTICAS_MODELO, predict_estricto precio)"

definition archivo_tolerante ::
  "pyfloat \<Rightarrow> (string list \<times> (fval list \<Rightarrow> py_error + pyfloat)) option" where
  "archivo_tolerante precio = Some (CARACTERISTICAS_MODELO, predict_tolerante precio)"

definition bloqueo_economico :: "cuerpo \<Rightarrow> bool" where
  \<comment> \<open>the economic floor block, read from the response: the price before the floor is
      below the floor\<close>
  "bloqueo_economico body =
     (case c_precio_mercado_sin_minimo (c_detalle body) of
        None \<Rightarrow> False
      | Some x \<Rightarrow> flt x (Fin (c_min_prestamo (c_detalle body))))"

definition bloqueo_cpu :: "solicitud \<Rightarrow> bool" where
  "bloqueo_cpu req = fst (cpu_excluido_politica (texto (procesador req)))"

definition motivo_cpu_de :: "solicitud \<Rightarrow> string" where
  "motivo_cpu_de req = snd (cpu_excluido_politica (texto (procesador req)))"

definition bloqueo_disco :: "solicitud \<Rightarrow> bool" where
  "bloqueo_disco req = fst (disco_excluido_politica (FInt (es_ssd req)))"

definition motivo_disco_de :: "solicitud \<Rightarrow> string" where
  "motivo_disco_de req = snd (disco_excluido_politica (FInt (es_ssd req)))"

definition solicitud_base :: solicitud where
  \<comment> \<open>one picture without text, a Dell with a Core i5 of generation 11 and an SSD\<close>
  "solicitud_base =
     \<lparr> imagenes = [Inr vision_vacia], es_ssd = 1, capacidad_disco_gb = 512, ram_gb = 16,
       marca_modelo = Some ''Dell'', procesador = Some ''Core i5-1135G7'', tiene_grafica = 0,
       factor_mercado = None, objetivo_precio = None \<rparr>"

definition solicitud_hdd :: solicitud where
  \<comment> \<open>the same computer with a hard disk\<close>
  "solicitud_hdd = solicitud_base\<lparr> es_ssd := 0 \<rparr>"

section \<open>Properties of the policy gate\<close>

lemma py_in_sublist: "py_in sub s = sublist sub s"
  by (induction s) (auto simp: sublist_Cons_right)

lemma py_lower_append: "py_lower (a @ b) = py_lower a @ py_lower b"
  by (simp add: py_lower_def)

lemma sublist_py_lower:
  assumes "sublist w name"
  shows "py_in (py_lower w) (py_lower name)"
proof -
  obtain ps ss where "name = ps @ w @ ss"
    using assms by (auto simp: sublist_def)
  then have "py_lower name = py_lower ps @ py_lower w @ py_lower ss"
    by (simp add: py_lower_append)
  then show ?thesis
    unfolding py_in_sublist sublist_def by blast
qed

lemma py_in_nonempty: "py_in sub s \<Longrightarrow> sub \<noteq> [] \<Longrightarrow> s \<noteq> []"
  by (cases s) auto

lemma motivo_excluido_nonempty: "motivo_excluido \<noteq> []"
  by (simp add: motivo_excluido_def)

lemma motivo_hdd_nonempty: "motivo_hdd \<noteq> []"
  by (simp add: motivo_hdd_def)

text \<open>
  C3.  A processor text that contains \<open>celeron\<close>, \<open>pentium\<close> or \<open>atom\<close> in any letter
  case (a part \<open>w\<close> of the text whose lower-case form is one of the three words) is
  blocked by the CPU policy, and the reason returned is not empty.
\<close>

theorem cpu_policy_blocks_excluded_families:
  assumes "sublist w name"
    and "py_lower w = ''celeron'' \<or> py_lower w = ''pentium'' \<or> py_lower w = ''atom''"
  shows "fst (cpu_excluido_politica name) = True \<and> snd (cpu_excluido_politica name) \<noteq> []"
proof -
  have occ: "py_in (py_lower w) (py_lower name)"
    using assms(1) by (rule sublist_py_lower)
  have ne: "py_lower w \<noteq> []"
    using assms(2) by auto
  have s_ne: "py_lower name \<noteq> []"
    using occ ne by (rule py_in_nonempty)
  have hit: "py_in ''pentium'' (py_lower name) \<or> py_in ''celeron'' (py_lower name)
             \<or> py_in ''atom'' (py_lower name)"
    using occ assms(2) by auto
  have "cpu_excluido_politica name = (True, motivo_excluido)"
    using s_ne hit unfolding cpu_excluido_politica_def Let_def by simp
  then show ?thesis
    by (simp add: motivo_excluido_nonempty)
qed

theorem cpu_policy_blocks_excluded_families_witness:
  "sublist ''CeLeRoN'' ''Intel CeLeRoN N4020''
   \<and> py_lower ''CeLeRoN'' = ''celeron''
   \<and> fst (cpu_excluido_politica ''Intel CeLeRoN N4020'') = True
   \<and> snd (cpu_excluido_politica ''Intel CeLeRoN N4020'') \<noteq> []"
proof -
  have h1: "sublist ''CeLeRoN'' ''Intel CeLeRoN N4020''"
    unfolding py_in_sublist [symmetric] by code_simp
  have h2: "py_lower ''CeLeRoN'' = ''celeron''"
    by code_simp
  from cpu_policy_blocks_excluded_families [OF h1 disjI1 [OF h2]] h1 h2
  show ?thesis by blast
qed

text \<open>
  C4.  The storage policy blocks, with a non-empty reason, exactly when the SSD flag
  is \<open>0\<close>, \<open>False\<close> or \<open>None\<close> (the values whose normal form \<open>bool(int(v))\<close>, or
  \<open>bool(v)\<close> when the conversion raises, is false); on every other value it passes
  with an empty reason.
\<close>

theorem disco_policy_blocks_iff_flag_false:
  "disco_excluido_politica v =
     (if v = FInt 0 \<or> v = FBool False \<or> v = FNone then (True, motivo_hdd) else (False, []))
   \<and> motivo_hdd \<noteq> []"
  by (cases v) (auto simp: disco_excluido_politica_def py_int_def py_bool_def motivo_hdd_nonempty)

theorem disco_policy_blocks_iff_flag_false_witness:
  "fst (disco_excluido_politica (FInt 0)) \<and> snd (disco_excluido_politica (FInt 0)) \<noteq> []
   \<and> \<not> fst (disco_excluido_politica (FInt 1)) \<and> \<not> fst (disco_excluido_politica (FBool True))
   \<and> fst (disco_excluido_politica FNone)"
  using disco_policy_blocks_iff_flag_false [of "FInt 0"]
        disco_policy_blocks_iff_flag_false [of "FInt 1"]
        disco_policy_blocks_iff_flag_false [of "FBool True"]
        disco_policy_blocks_iff_flag_false [of FNone]
  by simp

section \<open>Properties of the damage inference\<close>

lemma paso_danio_inv:
  assumes "danio_inv acc" and "0 < factor_de (fst kv)" and "factor_de (fst kv) < 1"
  shows "danio_inv (paso_danio v acc kv)"
proof (cases kv)
  case (Pair key kws)
  have c: "0 < factor_de key" "factor_de key < 1"
    using assms(2,3) Pair by simp_all
  have f: "0 < factor_danio acc" "factor_danio acc \<le> 1"
    using assms(1) by (simp_all add: danio_inv_def)
  show ?thesis
  proof (cases "detectar_danio v key kws")
    case None
    then show ?thesis
      using assms(1) Pair by (simp add: paso_danio_def danio_inv_def sin_danio_def)
  next
    case (Some hit)
    have "factor_danio acc * factor_de key \<le> 1 * factor_de key"
      using c(1) f(2) by (intro mult_right_mono) simp_all
    then have lt: "factor_danio acc * factor_de key < 1"
      using c(2) by simp
    have pos: "0 < factor_danio acc * factor_de key"
      using c f by simp
    show ?thesis
      using Some Pair lt pos by (cases hit) (simp add: paso_danio_def danio_inv_def sin_danio_def)
  qed
qed

lemma foldl_paso_danio_inv:
  "danio_inv acc \<Longrightarrow> (\<forall>kv \<in> set kvs. 0 < factor_de (fst kv) \<and> factor_de (fst kv) < 1)
   \<Longrightarrow> danio_inv (foldl (paso_danio v) acc kvs)"
  by (induction kvs arbitrary: acc) (simp_all add: paso_danio_inv)

lemma factores_propios:
  "\<forall>kv \<in> set keywords_danio. 0 < factor_de (fst kv) \<and> factor_de (fst kv) < 1"
  by (simp add: keywords_danio_def factor_de_def factors_def)

text \<open>
  C5.  Whatever the tags, objects and recognized text lines are, the damage factor
  returned by \<open>inferir_danios\<close> lies between 0.50 and 1.00, and it is 1.00 exactly
  when no defect kind matched (every flag of \<open>danios_detectados\<close> is 0).
\<close>

theorem damage_factor_range_and_unit:
  "1/2 \<le> factor_danio (inferir_danios v) \<and> factor_danio (inferir_danios v) \<le> 1
   \<and> ((factor_danio (inferir_danios v) = 1) = sin_danio (inferir_danios v))"
proof -
  let ?acc = "foldl (paso_danio v)
                \<lparr> danios_detectados = [], factor_danio = 1, motivos = [], evidencias = [] \<rparr>
                keywords_danio"
  have "danio_inv \<lparr> danios_detectados = [], factor_danio = 1, motivos = [], evidencias = [] \<rparr>"
    by (simp add: danio_inv_def sin_danio_def)
  then have inv: "danio_inv ?acc"
    using factores_propios by (rule foldl_paso_danio_inv)
  have res: "inferir_danios v = ?acc\<lparr> factor_danio := max (factor_danio ?acc) 0.50 \<rparr>"
    by (simp add: inferir_danios_def Let_def)
  show ?thesis
    using inv unfolding res danio_inv_def sin_danio_def by (auto simp: max_def)
qed

lemma contains_word_vacio: "contains_word [] needle = False"
  by (simp add: contains_word_def normalize_text_def py_lower_def re_search_def seq_def
                word_before_def word_after_def)

lemma buscar_tags_objs_vacio: "buscar_tags_objs [] [] kws = None"
  by (induction kws) (simp_all add: contains_word_vacio)

lemma find_nunca: "(\<And>x. \<not> P x) \<Longrightarrow> find P xs = None"
  by (induction xs) simp_all

lemma detectar_danio_vacia: "detectar_danio vision_vacia key kws = None"
  by (simp add: detectar_danio_def buscar_danio_def vision_vacia_def contains_word_vacio
                find_nunca buscar_tags_objs_vacio)

lemma inferir_danios_vacia: "inferir_danios vision_vacia = danios_ninguno"
  by (simp add: inferir_danios_def keywords_danio_def paso_danio_def detectar_danio_vacia
                danios_ninguno_def)

lemma detectar_mancha_1:
  "detectar_danio ejemplo_mancha ''pantalla_quebrada''
     [''crack'', ''cracked'', ''shattered'', ''screen crack'', ''pantalla rota'',
      ''pantalla quebrada''] = None"
  by code_simp

lemma detectar_mancha_2:
  "detectar_danio ejemplo_mancha ''carcasa_danada''
     [''broken'', ''chipped'', ''dent'', ''bent'', ''abollado'', ''carcasa rota'',
      carcasa_danada_kw] = None"
  by code_simp

lemma detectar_mancha_3:
  "detectar_danio ejemplo_mancha ''rayones'' [''scratch'', ''scratched'', ''rayado'', ''rayones'']
   = None"
  by code_simp

lemma detectar_mancha_4:
  "detectar_danio ejemplo_mancha ''bisagra_rota'' [''hinge'', ''hinge broken'', ''bisagra rota'']
   = None"
  by code_simp

lemma detectar_mancha_5:
  "detectar_danio ejemplo_mancha ''teclado_incompleto''
     [''missing key'', ''missing keys'', ''teclas faltantes'', ''tecla faltante''] = None"
  by code_simp

lemma detectar_mancha_6:
  "detectar_danio ejemplo_mancha ''manchas'' [''stain'', ''stained'', ''smudge'', ''manchas'']
   = Some (''ocr'', ''stain'', Some ''Stain'')"
  by code_simp

lemma inferir_danios_mancha:
  "inferir_danios ejemplo_mancha =
     \<lparr> danios_detectados =
         [(''pantalla_quebrada'', 0), (''carcasa_danada'', 0), (''rayones'', 0),
          (''bisagra_rota'', 0), (''teclado_incompleto'', 0), (''manchas'', 1)],
       factor_danio = 92/100, motivos = [''manchas''],
       evidencias = [\<lparr> tipo = ''manchas'', keyword = Some ''stain'', origen = Some ''ocr'',
                       muestra = Some ''Stain'' \<rparr>] \<rparr>"
  by (simp add: inferir_danios_def keywords_danio_def paso_danio_def
                detectar_mancha_1 detectar_mancha_2 detectar_mancha_3 detectar_mancha_4
                detectar_mancha_5 detectar_mancha_6 factor_de_def factors_def
                replace_underscore_def)

theorem damage_factor_range_and_unit_witness:
  "factor_danio (inferir_danios ejemplo_mancha) = 92/100
   \<and> \<not> sin_danio (inferir_danios ejemplo_mancha)
   \<and> factor_danio (inferir_danios vision_vacia) = 1
   \<and> sin_danio (inferir_danios vision_vacia)"
proof -
  have m: "factor_danio (inferir_danios ejemplo_mancha) = 92/100"
    by (simp add: inferir_danios_mancha)
  have v: "factor_danio (inferir_danios vision_vacia) = 1"
    by (simp add: inferir_danios_vacia danios_ninguno_def)
  from damage_factor_range_and_unit [of ejemplo_mancha]
       damage_factor_range_and_unit [of vision_vacia] m v
  show ?thesis by simp
qed


section \<open>Properties of the price composer\<close>

lemma fmul_fin:
  "0 \<le> a \<Longrightarrow> 0 \<le> b \<Longrightarrow> fmul (Fin a) (Fin b) = Fin (a * b)"
  by (simp add: fmul_def es_inf_def es_cero_def negativo_def valor_def finito_def)

lemma fmul_fin_no_cero:
  "a * b \<noteq> 0 \<Longrightarrow> fmul (Fin a) (Fin b) = Fin (a * b)"
  by (simp add: fmul_def es_inf_def es_cero_def negativo_def valor_def finito_def)

lemma fdiv_fin:
  "b \<noteq> 0 \<Longrightarrow> fdiv (Fin a) (Fin b) = finito ((a < 0) \<noteq> (b < 0)) (a / b)"
  by (simp add: fdiv_def es_inf_def es_cero_def negativo_def valor_def)

lemma fgt_finito_cero: "fgt (finito neg r) (Fin 0) = (0 < r)"
  by (simp add: fgt_def flt_def finito_def valor_def)

lemma flt_fin: "flt (Fin a) (Fin b) = (a < b)"
  by (simp add: flt_def valor_def)

lemma py_max_fin: "py_max (Fin a) (Fin b) = Fin (max a b)"
  by (simp add: py_max_def fgt_def flt_def valor_def max_def)

lemma componer_precio_some:
  "componer_precio dn (Some b) fm ob =
     (let post = fmul b (Fin (if factor_danio dn = 0 then 1 else factor_danio dn));
          factor = factor_efectivo (Some post) fm ob
      in (Some (py_max (Fin (min_prestamo MARKET_RULES)) (fmul post factor)),
          \<lparr> d_precio_base_ml = Some b,
            d_factor_danio = factor_danio dn,
            d_precio_post_danio = Some post,
            d_danios = danios_detectados dn,
            d_motivos_danios = motivos dn,
            d_factor_compraventa = factor,
            d_min_prestamo = min_prestamo MARKET_RULES,
            d_objetivo_precio = ob,
            d_evidencias_danio = evidencias dn,
            d_precio_mercado_sin_minimo = Some (fmul post factor) \<rparr>))"
  by (simp add: componer_precio_def Let_def MARKET_RULES_def)

lemma componer_precio_campos:
  assumes "componer_precio dn (Some base) fm ob = (final, det)"
    and "df = (if factor_danio dn = 0 then 1 else factor_danio dn)"
    and "factor = factor_efectivo (Some (fmul base (Fin df))) fm ob"
  shows "final = Some (py_max (Fin (min_prestamo MARKET_RULES)) (fmul (fmul base (Fin df)) factor))"
    and "d_precio_base_ml det = Some base"
    and "d_factor_danio det = factor_danio dn"
    and "d_precio_post_danio det = Some (fmul base (Fin df))"
    and "d_factor_compraventa det = factor"
    and "d_min_prestamo det = min_prestamo MARKET_RULES"
    and "d_objetivo_precio det = ob"
    and "d_precio_mercado_sin_minimo det = Some (fmul (fmul base (Fin df)) factor)"
  using assms by (auto simp: componer_precio_some Let_def)

lemma factor_efectivo_sin_objetivo:
  "factor_efectivo p fm None
   = (case fm of Some f \<Rightarrow> f | None \<Rightarrow> Fin (factor_compraventa MARKET_RULES))"
  by (cases p; cases fm; simp add: factor_efectivo_def)

text \<open>
  C1.  When the predictor returns a base price, the composer's final price is the
  maximum of the configured floor 100,000 and the price before the floor, which is the
  damage-adjusted price times the market factor, and the floor check \<open>bloqueo_minimo\<close> is
  the comparison of the price before the floor with the floor; this holds for every
  floating-point input.  Without a target price the market factor is the supplied
  override, and the configured 0.44 when none is supplied.  So for a non-negative finite
  base price \<open>b\<close>, damage factor and market factor \<open>m\<close>, with
  \<open>post = b * damage factor\<close>, the final price is \<open>max 100000 (post * m)\<close>, and the floor
  check is true, and the final price differs from the price before the floor, exactly
  when \<open>post * m < 100000\<close>.  The output depends on these inputs only: a second
  composition with the same base price, damage factor, override and target returns the
  same price and the same amounts, whatever else the damage assessment holds.
\<close>

theorem price_composer_final_is_max_of_floor:
  assumes "componer_precio dn (Some base) fm ob = (final, det)"
    and "componer_precio dn' (Some base) fm ob = (final', det')"
    and "factor_danio dn' = factor_danio dn"
    and "df = (if factor_danio dn = 0 then 1 else factor_danio dn)"
    and "pre = fmul (fmul base (Fin df)) (d_factor_compraventa det)"
  shows "d_precio_post_danio det = Some (fmul base (Fin df))
         \<and> d_precio_mercado_sin_minimo det = Some pre
         \<and> d_min_prestamo det = min_prestamo MARKET_RULES
         \<and> d_min_prestamo det = 100000
         \<and> final = Some (py_max (Fin (d_min_prestamo det)) pre)
         \<and> bloqueo_minimo det = flt pre (Fin (d_min_prestamo det))
         \<and> (ob = None \<longrightarrow>
              d_factor_compraventa det = (case fm of Some m \<Rightarrow> m | None \<Rightarrow> Fin (44/100)))
         \<and> (base = Fin b \<and> 0 \<le> b \<and> 0 \<le> factor_danio dn \<and> 0 \<le> m \<and> ob = None
                  \<and> (fm = Some (Fin m) \<or> fm = None \<and> m = 44/100)
              \<longrightarrow> d_precio_post_danio det = Some (Fin (b * df))
                  \<and> d_factor_compraventa det = Fin m
                  \<and> pre = Fin (b * df * m)
                  \<and> final = Some (Fin (max 100000 (b * df * m)))
                  \<and> bloqueo_minimo det = (b * df * m < 100000)
                  \<and> (final \<noteq> Some pre) = (b * df * m < 100000))
         \<and> final' = final
         \<and> d_precio_base_ml det' = d_precio_base_ml det
         \<and> d_factor_danio det' = d_factor_danio det
         \<and> d_precio_post_danio det' = d_precio_post_danio det
         \<and> d_factor_compraventa det' = d_factor_compraventa det
         \<and> d_min_prestamo det' = d_min_prestamo det
         \<and> d_objetivo_precio det' = d_objetivo_precio det
         \<and> d_precio_mercado_sin_minimo det' = d_precio_mercado_sin_minimo det
         \<and> bloqueo_minimo det' = bloqueo_minimo det"
proof -
  define factor where "factor = factor_efectivo (Some (fmul base (Fin df))) fm ob"
  have df': "df = (if factor_danio dn' = 0 then 1 else factor_danio dn')"
    using assms(3,4) by simp
  note uno = componer_precio_campos [OF assms(1) assms(4) factor_def]
  note dos = componer_precio_campos [OF assms(2) df' factor_def]
  have pre: "pre = fmul (fmul base (Fin df)) factor"
    using assms(5) uno(5) by simp
  have fields: "d_precio_post_danio det = Some (fmul base (Fin df))"
       "d_precio_mercado_sin_minimo det = Some pre"
       "d_min_prestamo det = min_prestamo MARKET_RULES"
       "d_min_prestamo det = 100000"
       "final = Some (py_max (Fin (d_min_prestamo det)) pre)"
    using uno pre by (simp_all add: MARKET_RULES_def)
  have blk: "bloqueo_minimo det = flt pre (Fin (d_min_prestamo det))"
    using fields by (simp add: bloqueo_minimo_def)
  have sin_obj: "ob = None \<longrightarrow>
      d_factor_compraventa det = (case fm of Some m \<Rightarrow> m | None \<Rightarrow> Fin (44/100))"
    unfolding uno(5) factor_def
    by (auto simp: factor_efectivo_sin_objetivo MARKET_RULES_def split: option.splits)
  have finite: "d_precio_post_danio det = Some (Fin (b * df))
                  \<and> d_factor_compraventa det = Fin m
                  \<and> pre = Fin (b * df * m)
                  \<and> final = Some (Fin (max 100000 (b * df * m)))
                  \<and> bloqueo_minimo det = (b * df * m < 100000)
                  \<and> (final \<noteq> Some pre) = (b * df * m < 100000)"
    if h: "base = Fin b \<and> 0 \<le> b \<and> 0 \<le> factor_danio dn \<and> 0 \<le> m \<and> ob = None
           \<and> (fm = Some (Fin m) \<or> fm = None \<and> m = 44/100)"
  proof -
    have "0 \<le> df"
      using h assms(4) by simp
    then have post: "fmul base (Fin df) = Fin (b * df)"
      using h by (simp add: fmul_fin)
    have m: "d_factor_compraventa det = Fin m"
      using h sin_obj by auto
    have "0 \<le> b * df"
      using h \<open>0 \<le> df\<close> by simp
    then have pre': "pre = Fin (b * df * m)"
      using h unfolding assms(5) post m by (simp add: fmul_fin)
    show ?thesis
      using fields blk post m pre' by (auto simp: py_max_fin flt_fin max_def)
  qed
  have same: "final' = final"
     "d_precio_base_ml det' = d_precio_base_ml det"
     "d_factor_danio det' = d_factor_danio det"
     "d_precio_post_danio det' = d_precio_post_danio det"
     "d_factor_compraventa det' = d_factor_compraventa det"
     "d_min_prestamo det' = d_min_prestamo det"
     "d_objetivo_precio det' = d_objetivo_precio det"
     "d_precio_mercado_sin_minimo det' = d_precio_mercado_sin_minimo det"
    using uno dos assms(3) by simp_all
  have blk': "bloqueo_minimo det' = bloqueo_minimo det"
    by (simp add: bloqueo_minimo_def same split: option.splits)
  from fields blk sin_obj finite same blk' show ?thesis
    by blast
qed

lemma componer_escenario_a:
  "componer_precio danios_ninguno (Some (Fin 2000000)) None None
   = (Some (Fin 880000),
      \<lparr> d_precio_base_ml = Some (Fin 2000000), d_factor_danio = 1,
        d_precio_post_danio = Some (Fin 2000000),
        d_danios = danios_detectados danios_ninguno, d_motivos_danios = [],
        d_factor_compraventa = Fin (44/100), d_min_prestamo = 100000,
        d_objetivo_precio = None, d_evidencias_danio = [],
        d_precio_mercado_sin_minimo = Some (Fin 880000) \<rparr>)"
  by (simp add: componer_precio_some Let_def factor_efectivo_sin_objetivo fmul_fin py_max_fin
                MARKET_RULES_def danios_ninguno_def)

lemma componer_escenario_d:
  "componer_precio danios_ninguno (Some (Fin 100000)) None None
   = (Some (Fin 100000),
      \<lparr> d_precio_base_ml = Some (Fin 100000), d_factor_danio = 1,
        d_precio_post_danio = Some (Fin 100000),
        d_danios = danios_detectados danios_ninguno, d_motivos_danios = [],
        d_factor_compraventa = Fin (44/100), d_min_prestamo = 100000,
        d_objetivo_precio = None, d_evidencias_danio = [],
        d_precio_mercado_sin_minimo = Some (Fin 44000) \<rparr>)"
  by (simp add: componer_precio_some Let_def factor_efectivo_sin_objetivo fmul_fin py_max_fin
                MARKET_RULES_def danios_ninguno_def)

theorem price_composer_final_is_max_of_floor_witness:
  "fst (componer_precio danios_ninguno (Some (Fin 2000000)) None None) = Some (Fin 880000)
   \<and> bloqueo_minimo (snd (componer_precio danios_ninguno (Some (Fin 2000000)) None None)) = False
   \<and> fst (componer_precio danios_ninguno (Some (Fin 100000)) None None) = Some (Fin 100000)
   \<and> bloqueo_minimo (snd (componer_precio danios_ninguno (Some (Fin 100000)) None None)) = True
   \<and> factor_danio (danios_ninguno\<lparr> motivos := [''rayones''] \<rparr>) = factor_danio danios_ninguno
   \<and> fst (componer_precio danios_ninguno (Some (Fin 1000000)) (Some (Fin (1/2))) None)
       = Some (Fin 500000)
   \<and> fst (componer_precio (danios_ninguno\<lparr> motivos := [''rayones''] \<rparr>) (Some (Fin 1000000))
            (Some (Fin (1/2))) None)
       = fst (componer_precio danios_ninguno (Some (Fin 1000000)) (Some (Fin (1/2))) None)"
proof -
  have df: "(1::real) = (if factor_danio danios_ninguno = 0 then 1 else factor_danio danios_ninguno)"
    by (simp add: danios_ninguno_def)
  have otra: "factor_danio (danios_ninguno\<lparr> motivos := [''rayones''] \<rparr>) = factor_danio danios_ninguno"
    by simp
  have ha: "Fin 2000000 = Fin 2000000 \<and> (0::real) \<le> 2000000 \<and> 0 \<le> factor_danio danios_ninguno
            \<and> (0::real) \<le> 44/100 \<and> (None::pyfloat option) = None
            \<and> (None = Some (Fin (44/100)) \<or> (None::pyfloat option) = None \<and> (44/100::real) = 44/100)"
    by (simp add: danios_ninguno_def)
  have hd: "Fin 100000 = Fin 100000 \<and> (0::real) \<le> 100000 \<and> 0 \<le> factor_danio danios_ninguno
            \<and> (0::real) \<le> 44/100 \<and> (None::pyfloat option) = None
            \<and> (None = Some (Fin (44/100)) \<or> (None::pyfloat option) = None \<and> (44/100::real) = 44/100)"
    by (simp add: danios_ninguno_def)
  have hf: "Fin 1000000 = Fin 1000000 \<and> (0::real) \<le> 1000000 \<and> 0 \<le> factor_danio danios_ninguno
            \<and> (0::real) \<le> 1/2 \<and> (None::pyfloat option) = None
            \<and> (Some (Fin (1/2)) = Some (Fin (1/2))
                \<or> Some (Fin (1/2)) = None \<and> (1/2::real) = 44/100)"
    by (simp add: danios_ninguno_def)
  note a = price_composer_final_is_max_of_floor
             [where b = 2000000 and m = "44/100",
              OF prod.collapse [symmetric] prod.collapse [symmetric] refl df refl,
              THEN conjunct2, THEN conjunct2, THEN conjunct2, THEN conjunct2, THEN conjunct2,
              THEN conjunct2, THEN conjunct2, THEN conjunct1, THEN mp, OF ha]
  note d = price_composer_final_is_max_of_floor
             [where b = 100000 and m = "44/100",
              OF prod.collapse [symmetric] prod.collapse [symmetric] refl df refl,
              THEN conjunct2, THEN conjunct2, THEN conjunct2, THEN conjunct2, THEN conjunct2,
              THEN conjunct2, THEN conjunct2, THEN conjunct1, THEN mp, OF hd]
  note f = price_composer_final_is_max_of_floor
             [where b = 1000000 and m = "1/2",
              OF prod.collapse [symmetric] prod.collapse [symmetric] otra df refl]
  note f1 = f [THEN conjunct2, THEN conjunct2, THEN conjunct2, THEN conjunct2, THEN conjunct2,
               THEN conjunct2, THEN conjunct2, THEN conjunct1, THEN mp, OF hf]
  note f2 = f [THEN conjunct2, THEN conjunct2, THEN conjunct2, THEN conjunct2, THEN conjunct2,
               THEN conjunct2, THEN conjunct2, THEN conjunct2, THEN conjunct1]
  have a1: "fst (componer_precio danios_ninguno (Some (Fin 2000000)) None None) = Some (Fin 880000)"
    using a [THEN conjunct2, THEN conjunct2, THEN conjunct2, THEN conjunct1] by simp
  have a2: "bloqueo_minimo (snd (componer_precio danios_ninguno (Some (Fin 2000000)) None None))
            = False"
    using a [THEN conjunct2, THEN conjunct2, THEN conjunct2, THEN conjunct2, THEN conjunct1]
    by simp
  have d1: "fst (componer_precio danios_ninguno (Some (Fin 100000)) None None) = Some (Fin 100000)"
    using d [THEN conjunct2, THEN conjunct2, THEN conjunct2, THEN conjunct1] by simp
  have d2: "bloqueo_minimo (snd (componer_precio danios_ninguno (Some (Fin 100000)) None None))
            = True"
    using d [THEN conjunct2, THEN conjunct2, THEN conjunct2, THEN conjunct2, THEN conjunct1]
    by simp
  have f3: "fst (componer_precio danios_ninguno (Some (Fin 1000000)) (Some (Fin (1/2))) None)
            = Some (Fin 500000)"
    using f1 [THEN conjunct2, THEN conjunct2, THEN conjunct2, THEN conjunct1] by simp
  from a1 a2 d1 d2 otra f3 f2 show ?thesis
    by (intro conjI)
qed

lemma factor_efectivo_objetivo:
  "p \<noteq> 0 \<Longrightarrow>
   factor_efectivo (Some (Fin p)) fm (Some (Fin t)) =
     (if 0 < t / p then Fin (t / p)
      else (case fm of Some f \<Rightarrow> f | None \<Rightarrow> Fin (factor_compraventa MARKET_RULES)))"
proof -
  assume "p \<noteq> 0"
  then have q: "fdiv (Fin t) (Fin p) = finito ((t < 0) \<noteq> (p < 0)) (t / p)"
    by (rule fdiv_fin)
  have "0 < t / p \<Longrightarrow> finito ((t < 0) \<noteq> (p < 0)) (t / p) = Fin (t / p)"
    unfolding finito_def by (cases "t / p = 0") simp_all
  then show ?thesis
    by (simp add: factor_efectivo_def Let_def q fgt_finito_cero)
qed

text \<open>
  C7, as amended.  When a target final price \<open>t\<close> is supplied, the damage-adjusted price
  is not 0 and the quotient \<open>t / price_post_damage\<close> is positive (in particular when both
  the target and the damage-adjusted price are positive), the market factor is that
  quotient, whatever the override and the configured factor are.  When the
  damage-adjusted price is not 0 and the quotient is not positive (a target of 0, or of
  the opposite sign), the composer keeps the override if one was given and the
  configured factor otherwise.
\<close>

theorem target_price_solves_market_factor:
  assumes "componer_precio dn (Some (Fin b)) fm (Some (Fin t)) = (final, det)"
    and "post = b * (if factor_danio dn = 0 then 1 else factor_danio dn)"
    and "fallback = (case fm of Some f \<Rightarrow> f | None \<Rightarrow> Fin (factor_compraventa MARKET_RULES))"
    and "post \<noteq> 0"
  shows "d_precio_post_danio det = Some (Fin post)
         \<and> d_objetivo_precio det = Some (Fin t)
         \<and> (0 < post \<and> 0 < t \<longrightarrow> d_factor_compraventa det = Fin (t / post))
         \<and> (0 < t / post \<longrightarrow> d_factor_compraventa det = Fin (t / post))
         \<and> (t / post \<le> 0 \<longrightarrow> d_factor_compraventa det = fallback)
         \<and> d_precio_mercado_sin_minimo det = Some (fmul (Fin post) (d_factor_compraventa det))
         \<and> final = Some (py_max (Fin (min_prestamo MARKET_RULES))
                                 (fmul (Fin post) (d_factor_compraventa det)))"
proof -
  define df where "df = (if factor_danio dn = 0 then 1 else factor_danio dn)"
  define factor where "factor = factor_efectivo (Some (fmul (Fin b) (Fin df))) fm (Some (Fin t))"
  note campos = componer_precio_campos [OF assms(1) df_def factor_def]
  have post: "fmul (Fin b) (Fin df) = Fin post"
    using assms(2,4) by (simp add: fmul_fin_no_cero df_def)
  have fac: "d_factor_compraventa det
             = (if 0 < t / post then Fin (t / post) else fallback)"
    unfolding campos(5) factor_def post assms(3)
    using assms(4) by (rule factor_efectivo_objetivo)
  have "0 < post \<and> 0 < t \<longrightarrow> 0 < t / post"
    by simp
  then show ?thesis
    using campos(1,4,7,8) campos(5) [symmetric] post fac by auto
qed

lemma componer_objetivo_440:
  "componer_precio danios_ninguno (Some (Fin 1000000)) (Some (Fin (9/10))) (Some (Fin 440000))
   = (Some (Fin 440000),
      \<lparr> d_precio_base_ml = Some (Fin 1000000), d_factor_danio = 1,
        d_precio_post_danio = Some (Fin 1000000),
        d_danios = danios_detectados danios_ninguno, d_motivos_danios = [],
        d_factor_compraventa = Fin (44/100), d_min_prestamo = 100000,
        d_objetivo_precio = Some (Fin 440000), d_evidencias_danio = [],
        d_precio_mercado_sin_minimo = Some (Fin 440000) \<rparr>)"
  by (simp add: componer_precio_some Let_def factor_efectivo_objetivo fmul_fin py_max_fin
                MARKET_RULES_def danios_ninguno_def)

lemma componer_objetivo_negativo:
  "componer_precio danios_ninguno (Some (Fin 1000000)) (Some (Fin (9/10))) (Some (Fin (- 5)))
   = (Some (Fin 900000),
      \<lparr> d_precio_base_ml = Some (Fin 1000000), d_factor_danio = 1,
        d_precio_post_danio = Some (Fin 1000000),
        d_danios = danios_detectados danios_ninguno, d_motivos_danios = [],
        d_factor_compraventa = Fin (9/10), d_min_prestamo = 100000,
        d_objetivo_precio = Some (Fin (- 5)), d_evidencias_danio = [],
        d_precio_mercado_sin_minimo = Some (Fin 900000) \<rparr>)"
  by (simp add: componer_precio_some Let_def factor_efectivo_objetivo fmul_fin py_max_fin
                MARKET_RULES_def danios_ninguno_def)

lemma componer_objetivo_cero:
  "componer_precio danios_ninguno (Some (Fin 1000000)) None (Some (Fin 0))
   = (Some (Fin 440000),
      \<lparr> d_precio_base_ml = Some (Fin 1000000), d_factor_danio = 1,
        d_precio_post_danio = Some (Fin 1000000),
        d_danios = danios_detectados danios_ninguno, d_motivos_danios = [],
        d_factor_compraventa = Fin (44/100), d_min_prestamo = 100000,
        d_objetivo_precio = Some (Fin 0), d_evidencias_danio = [],
        d_precio_mercado_sin_minimo = Some (Fin 440000) \<rparr>)"
  by (simp add: componer_precio_some Let_def factor_efectivo_objetivo fmul_fin py_max_fin
                MARKET_RULES_def danios_ninguno_def)

text \<open>
  A damage-adjusted price of 0 with a target: the quotient is the positive infinity, it
  is greater than 0 and replaces the factor, the price before the floor is
  \<open>0 * inf = NaN\<close>, the final price is the floor, and the floor check is false.
\<close>

lemma componer_base_cero:
  "componer_precio danios_ninguno (Some (Fin 0)) (Some (Fin (1/2))) (Some (Fin 440000))
   = (Some (Fin 100000),
      \<lparr> d_precio_base_ml = Some (Fin 0), d_factor_danio = 1,
        d_precio_post_danio = Some (Fin 0),
        d_danios = danios_detectados danios_ninguno, d_motivos_danios = [],
        d_factor_compraventa = PInf, d_min_prestamo = 100000,
        d_objetivo_precio = Some (Fin 440000), d_evidencias_danio = [],
        d_precio_mercado_sin_minimo = Some NaN \<rparr>)"
  by (simp add: componer_precio_some Let_def factor_efectivo_def fmul_def fdiv_def es_inf_def
                es_cero_def negativo_def valor_def finito_def infinito_def fgt_def flt_def
                py_max_def MARKET_RULES_def danios_ninguno_def)

lemma bloqueo_base_cero:
  "bloqueo_minimo
     (snd (componer_precio danios_ninguno (Some (Fin 0)) (Some (Fin (1/2))) (Some (Fin 440000))))
   = False"
  by (simp add: componer_base_cero bloqueo_minimo_def flt_def)

theorem target_price_solves_market_factor_witness:
  "(1000000::real) * 1 \<noteq> 0 \<and> (0::real) < 1000000 * 1 \<and> (0::real) < 440000
   \<and> d_factor_compraventa
        (snd (componer_precio danios_ninguno (Some (Fin 1000000)) (Some (Fin (9/10)))
                (Some (Fin 440000))))
      = Fin (440000 / (1000000 * 1))
   \<and> (- 5) / (1000000 * 1) \<le> (0::real)
   \<and> d_factor_compraventa
        (snd (componer_precio danios_ninguno (Some (Fin 1000000)) (Some (Fin (9/10)))
                (Some (Fin (- 5)))))
      = Fin (9/10)"
proof -
  have df: "(if factor_danio danios_ninguno = 0 then 1 else factor_danio danios_ninguno) = (1::real)"
    by (simp add: danios_ninguno_def)
  have nz: "(1000000::real) * 1 \<noteq> 0" and pos: "(0::real) < 1000000 * 1 \<and> (0::real) < 440000"
    and neg: "(- 5) / (1000000 * 1) \<le> (0::real)"
    by simp_all
  note q1 = target_price_solves_market_factor
              [where dn = danios_ninguno and b = 1000000 and fm = "Some (Fin (9/10))"
                 and t = 440000, OF prod.collapse [symmetric] refl refl]
  note q2 = target_price_solves_market_factor
              [where dn = danios_ninguno and b = 1000000 and fm = "Some (Fin (9/10))"
                 and t = "- 5", OF prod.collapse [symmetric] refl refl]
  have r1: "d_factor_compraventa
        (snd (componer_precio danios_ninguno (Some (Fin 1000000)) (Some (Fin (9/10)))
                (Some (Fin 440000))))
      = Fin (440000 / (1000000 * 1))"
    using q1 [unfolded df, OF nz, THEN conjunct2, THEN conjunct2, THEN conjunct1, THEN mp, OF pos]
    by simp
  have r2: "d_factor_compraventa
        (snd (componer_precio danios_ninguno (Some (Fin 1000000)) (Some (Fin (9/10)))
                (Some (Fin (- 5)))))
      = Fin (9/10)"
    using q2 [unfolded df, OF nz, THEN conjunct2, THEN conjunct2, THEN conjunct2, THEN conjunct2,
              THEN conjunct1, THEN mp, OF neg]
    by simp
  from nz pos r1 neg r2 show ?thesis
    by (intro conjI) simp_all
qed

text \<open>
  C7 as stated fails for a target of 0: the damage-adjusted price is positive, the
  quotient is 0, and the configured factor 0.44 is kept instead of the quotient.
\<close>

theorem target_price_zero_counterexample:
  "d_precio_post_danio
     (snd (componer_precio danios_ninguno (Some (Fin 1000000)) None (Some (Fin 0))))
     = Some (Fin 1000000)
   \<and> (0::real) < 1000000
   \<and> d_objetivo_precio
        (snd (componer_precio danios_ninguno (Some (Fin 1000000)) None (Some (Fin 0))))
      = Some (Fin 0)
   \<and> d_factor_compraventa
        (snd (componer_precio danios_ninguno (Some (Fin 1000000)) None (Some (Fin 0))))
      = Fin (44/100)
   \<and> d_factor_compraventa
        (snd (componer_precio danios_ninguno (Some (Fin 1000000)) None (Some (Fin 0))))
      \<noteq> Fin (0 / 1000000)"
  unfolding componer_objetivo_cero by simp


section \<open>The minimum-generation rule for Core i3\<close>

lemma infer_generation_i3_solo: "infer_generation ''Intel Core i3'' = 10"
  by code_simp

lemma busqueda_intel_i3_solo: "re_search rx_intel_gen (py_lower ''Intel Core i3'') = None"
  by code_simp

lemma busqueda_ryzen_i3_solo: "re_search rx_ryzen_gen (py_lower ''Intel Core i3'') = None"
  by code_simp

lemma politica_i3_solo: "cpu_excluido_politica ''Intel Core i3'' = (False, [])"
  by code_simp

lemma politica_i3_octava: "cpu_excluido_politica ''Core i3-8130U'' = (False, [])"
  by code_simp

lemma motivos_distintos:
  "motivo_i3_sin_gen \<noteq> motivo_excluido" "motivo_i3_sin_gen \<noteq> motivo_i3_anterior"
  "motivo_i3_sin_gen \<noteq> []"
  by (simp_all add: motivo_i3_sin_gen_def motivo_excluido_def motivo_i3_anterior_def)

lemma politica_nunca_sin_generacion: "snd (cpu_excluido_politica name) \<noteq> motivo_i3_sin_gen"
  using motivos_distintos by (auto simp: cpu_excluido_politica_def Let_def)

lemma politica_i3_por_generacion:
  assumes "nombra_i3 (py_lower name)"
    and "\<not> py_in ''pentium'' (py_lower name)" and "\<not> py_in ''celeron'' (py_lower name)"
    and "\<not> py_in ''atom'' (py_lower name)"
  shows "fst (cpu_excluido_politica name) = (infer_generation name < 10)"
proof -
  have "py_lower name \<noteq> []"
    using assms(1) by (auto simp: nombra_i3_def startswith_def)
  then show ?thesis
    using assms by (simp add: cpu_excluido_politica_def Let_def)
qed

text \<open>
  C2.  A Core i3 text from which no generation can be determined is to be blocked, and
  the documentation of \<open>_cpu_excluido_politica\<close> says so.  The program does otherwise:
  \<open>_infer_generation\<close> answers its default 10 when neither pattern matches, so the text
  \<open>Intel Core i3\<close> passes, as does an eighth-generation \<open>Core i3-8130U\<close>; the reason
  reserved for a missing generation is never returned.  (When a generation below 10 or
  of at least 10 is inferred, the text is blocked or passes accordingly, by
  \<open>politica_i3_por_generacion\<close>.)
\<close>

theorem cpu_policy_i3_undetermined_generation_passes:
  "re_search rx_intel_gen (py_lower ''Intel Core i3'') = None
   \<and> re_search rx_ryzen_gen (py_lower ''Intel Core i3'') = None
   \<and> nombra_i3 (py_lower ''Intel Core i3'')
   \<and> infer_generation ''Intel Core i3'' = 10
   \<and> cpu_excluido_politica ''Intel Core i3'' = (False, [])
   \<and> cpu_excluido_politica ''Core i3-8130U'' = (False, [])
   \<and> snd (cpu_excluido_politica name) \<noteq> motivo_i3_sin_gen"
proof -
  have "nombra_i3 (py_lower ''Intel Core i3'')"
    by code_simp
  then show ?thesis
    using busqueda_intel_i3_solo busqueda_ryzen_i3_solo infer_generation_i3_solo
          politica_i3_solo politica_i3_octava politica_nunca_sin_generacion [of name]
    by simp
qed


section \<open>Properties of the feature vector\<close>

lemma or_default_py_or:
  "or_default (py_or a b) d =
     (if \<not> ausente a then the a else if \<not> ausente b then the b else d)"
  by (cases a; cases b) (auto simp: or_default_def py_or_def ausente_def)

text \<open>
  C8, as amended.  The RAM size, the storage capacity and the CPU generation of the
  feature vector are each the user-supplied value when one was supplied and is not 0,
  else the value extracted from the recognized text when one was found and is not 0,
  else the default (8 GB, 256 GB, generation 10).  A supplied 0 counts as not supplied.
\<close>

theorem feature_precedence_user_evidence_default:
  assumes "F = construir_features_desde_vision v e"
    and "ind = extraer_indicios_especificaciones (ocr_lines v)"
  shows "(\<not> ausente (u_ram_gb e) \<longrightarrow> Some (f_ram_gb F) = u_ram_gb e)
       \<and> (ausente (u_ram_gb e) \<and> \<not> ausente (i_ram_gb ind) \<longrightarrow> Some (f_ram_gb F) = i_ram_gb ind)
       \<and> (ausente (u_ram_gb e) \<and> ausente (i_ram_gb ind) \<longrightarrow> f_ram_gb F = 8)
       \<and> (\<not> ausente (u_capacidad_disco_gb e)
            \<longrightarrow> Some (f_capacidad_disco_gb F) = u_capacidad_disco_gb e)
       \<and> (ausente (u_capacidad_disco_gb e) \<and> \<not> ausente (i_capacidad_disco_gb ind)
            \<longrightarrow> Some (f_capacidad_disco_gb F) = i_capacidad_disco_gb ind)
       \<and> (ausente (u_capacidad_disco_gb e) \<and> ausente (i_capacidad_disco_gb ind)
            \<longrightarrow> f_capacidad_disco_gb F = 256)
       \<and> (\<not> ausente (u_generacion_procesador e)
            \<longrightarrow> Some (f_generacion_procesador F) = u_generacion_procesador e)
       \<and> (ausente (u_generacion_procesador e) \<and> \<not> ausente (i_generacion_procesador ind)
            \<longrightarrow> Some (f_generacion_procesador F) = i_generacion_procesador ind)
       \<and> (ausente (u_generacion_procesador e) \<and> ausente (i_generacion_procesador ind)
            \<longrightarrow> f_generacion_procesador F = 10)"
proof -
  have ram: "f_ram_gb F = or_default (py_or (u_ram_gb e) (i_ram_gb ind)) 8"
    and cap: "f_capacidad_disco_gb F
              = or_default (py_or (u_capacidad_disco_gb e) (i_capacidad_disco_gb ind)) 256"
    and gen: "f_generacion_procesador F
              = or_default (py_or (u_generacion_procesador e) (i_generacion_procesador ind)) 10"
    unfolding assms by (simp_all add: construir_features_desde_vision_def Let_def)
  have some: "\<And>a. \<not> ausente a \<Longrightarrow> Some (the a) = a"
    by (auto simp: ausente_def)
  show ?thesis
    unfolding ram cap gen or_default_py_or using some by simp
qed

lemma indicios_ejemplo_ram:
  "extraer_indicios_especificaciones [''16 GB RAM'']
   = \<lparr> i_ram_gb = Some 16, i_capacidad_disco_gb = Some 16, i_generacion_procesador = None,
       i_grafica_gamer_detectada = 0, i_gpu_model_detectado = None \<rparr>"
  by code_simp

theorem feature_precedence_user_evidence_default_witness:
  "ausente (u_ram_gb entrada_ram_cero)
   \<and> \<not> ausente (i_ram_gb (extraer_indicios_especificaciones (ocr_lines ejemplo_ram)))
   \<and> f_ram_gb (construir_features_desde_vision ejemplo_ram entrada_ram_cero) = 16
   \<and> \<not> ausente (u_capacidad_disco_gb entrada_ram_cero)
   \<and> f_capacidad_disco_gb (construir_features_desde_vision ejemplo_ram entrada_ram_cero) = 512
   \<and> ausente (u_generacion_procesador entrada_ram_cero)
   \<and> ausente (i_generacion_procesador (extraer_indicios_especificaciones (ocr_lines ejemplo_ram)))
   \<and> f_generacion_procesador (construir_features_desde_vision ejemplo_ram entrada_ram_cero) = 10"
proof -
  have i: "extraer_indicios_especificaciones (ocr_lines ejemplo_ram)
           = \<lparr> i_ram_gb = Some 16, i_capacidad_disco_gb = Some 16,
               i_generacion_procesador = None, i_grafica_gamer_detectada = 0,
               i_gpu_model_detectado = None \<rparr>"
    by (simp add: ejemplo_ram_def indicios_ejemplo_ram)
  from feature_precedence_user_evidence_default
         [where v = ejemplo_ram and e = entrada_ram_cero, OF refl refl]
  show ?thesis
    unfolding i by (simp add: ausente_def entrada_ram_cero_def)
qed

text \<open>
  C8 as stated fails when the user supplies 0: the RAM size of the feature vector is
  then the 16 read from the sticker, not the supplied value.
\<close>

theorem feature_precedence_zero_counterexample:
  "u_ram_gb entrada_ram_cero = Some 0
   \<and> f_ram_gb (construir_features_desde_vision ejemplo_ram entrada_ram_cero) = 16
   \<and> Some (f_ram_gb (construir_features_desde_vision ejemplo_ram entrada_ram_cero))
       \<noteq> u_ram_gb entrada_ram_cero"
  by (simp add: construir_features_desde_vision_def Let_def ejemplo_ram_def indicios_ejemplo_ram
                entrada_ram_cero_def or_default_def py_or_def)


section \<open>The SSD flag and the predictor\<close>

lemma claves_features_items: "map fst (features_items f) = claves_features"
  by (simp add: features_items_def claves_features_def)

lemma recoger_valores_falta:
  "recoger_valores dict cs = Inl k \<Longrightarrow> map_of dict k = None"
  by (induction cs) (auto split: option.splits sum.splits)

lemma recoger_valores_todas:
  "set cs \<subseteq> fst ` set dict \<Longrightarrow> recoger_valores dict cs = Inr (valores_de dict cs)"
proof (induction cs)
  case Nil
  then show ?case by (simp add: valores_de_def)
next
  case (Cons c cs)
  then have "map_of dict c \<noteq> None"
    by (simp add: map_of_eq_None_iff)
  then obtain v where "map_of dict c = Some v"
    by blast
  with Cons show ?case
    by (simp add: valores_de_def)
qed

lemma es_ssd_presente: "map_of (features_items f) ''es_ssd'' = Some (v_opt_int (f_es_ssd f))"
  by (simp add: features_items_def)

text \<open>
  C10, as amended.  The SSD flag of the feature vector is the caller's value, with no
  fallback and no default; when the caller omits \<open>es_ssd\<close> the feature dictionary holds
  the key \<open>es_ssd\<close> with the value \<open>None\<close>.  The predictor therefore never reports
  \<open>es_ssd\<close> as a missing feature: when the model is loaded and every feature it expects
  is a key of the dictionary, the row of values (with \<open>None\<close> for the flag) is handed to
  the model, and the predictor returns the model's price, or no price and a
  prediction error if the model raises.
\<close>

theorem ssd_flag_passed_through_and_predicted:
  assumes "F = construir_features_desde_vision v e"
  shows "f_es_ssd F = u_es_ssd e
       \<and> (u_es_ssd e = None \<longrightarrow> map_of (features_items F) ''es_ssd'' = Some VNone)
       \<and> snd (predecir_precio m (features_items F)) \<noteq> FaltaCaracteristica ''es_ssd''
       \<and> (modelo_entrenado m \<and> set (caracteristicas m) \<subseteq> set claves_features \<longrightarrow>
            predecir_precio m (features_items F)
            = (case predict m (valores_de (features_items F) (caracteristicas m)) of
                 Inl err \<Rightarrow> (None, ErrorAlPredecir)
               | Inr precio \<Rightarrow> (Some precio, PrediccionRealizada precio)))"
proof -
  have pass: "f_es_ssd F = u_es_ssd e"
    unfolding assms by (simp add: construir_features_desde_vision_def Let_def)
  have none: "u_es_ssd e = None \<longrightarrow> map_of (features_items F) ''es_ssd'' = Some VNone"
    using pass by (simp add: es_ssd_presente v_opt_int_def)
  have nofalta: "snd (predecir_precio m (features_items F)) \<noteq> FaltaCaracteristica ''es_ssd''"
  proof
    assume a: "snd (predecir_precio m (features_items F)) = FaltaCaracteristica ''es_ssd''"
    then have "recoger_valores (features_items F) (caracteristicas m) = Inl ''es_ssd''"
      by (auto simp: predecir_precio_def split: if_splits sum.splits)
    then have "map_of (features_items F) ''es_ssd'' = None"
      by (rule recoger_valores_falta)
    then show False
      by (simp add: es_ssd_presente)
  qed
  have run: "modelo_entrenado m \<and> set (caracteristicas m) \<subseteq> set claves_features \<longrightarrow>
            predecir_precio m (features_items F)
            = (case predict m (valores_de (features_items F) (caracteristicas m)) of
                 Inl err \<Rightarrow> (None, ErrorAlPredecir)
               | Inr precio \<Rightarrow> (Some precio, PrediccionRealizada precio))"
  proof
    assume h: "modelo_entrenado m \<and> set (caracteristicas m) \<subseteq> set claves_features"
    have "set claves_features = fst ` set (features_items F)"
      by (metis claves_features_items set_map)
    with h have "recoger_valores (features_items F) (caracteristicas m)
                 = Inr (valores_de (features_items F) (caracteristicas m))"
      by (intro recoger_valores_todas) simp
    with h show "predecir_precio m (features_items F)
            = (case predict m (valores_de (features_items F) (caracteristicas m)) of
                 Inl err \<Rightarrow> (None, ErrorAlPredecir)
               | Inr precio \<Rightarrow> (Some precio, PrediccionRealizada precio))"
      by (simp add: predecir_precio_def)
  qed
  from pass none nofalta run show ?thesis
    by blast
qed

lemma indicios_vacio:
  "extraer_indicios_especificaciones []
   = \<lparr> i_ram_gb = None, i_capacidad_disco_gb = None, i_generacion_procesador = None,
       i_grafica_gamer_detectada = 0, i_gpu_model_detectado = None \<rparr>"
  by code_simp

lemma inferir_marca_vacio: "inferir_marca [] [] = None"
  by code_simp

lemma or_default_py_or_none: "or_default (py_or a None) d = or_default a d"
  by (cases a) (simp_all add: py_or_def or_default_def)

lemma features_vision_vacia:
  "construir_features_desde_vision vision_vacia e
   = \<lparr> f_marca_score = py_or (u_marca_score e) (Some 4),
       f_es_ssd = u_es_ssd e,
       f_capacidad_disco_gb = or_default (u_capacidad_disco_gb e) 256,
       f_ram_gb = or_default (u_ram_gb e) 8,
       f_generacion_procesador = or_default (u_generacion_procesador e) 10,
       f_procesador_score = or_default (u_procesador_score e) 4,
       f_tiene_grafica =
         (if (case u_grafica_gamer e of
                Some g \<Rightarrow> g
              | None \<Rightarrow> (case u_tiene_grafica e of Some g \<Rightarrow> g | None \<Rightarrow> 0)) \<noteq> 0
          then 1 else 0),
       f_marca_detectada = None, f_ocr_texto = [], f_gpu_detectada = None \<rparr>"
  by (simp add: construir_features_desde_vision_def vision_vacia_def indicios_vacio
                inferir_marca_vacio Let_def or_default_py_or_none)

lemma valores_sin_ssd:
  "valores_de (features_items (construir_features_desde_vision vision_vacia entrada_sin_ssd))
     CARACTERISTICAS_MODELO
   = [VInt 5, VNone, VInt 512, VInt 16, VInt 11, VInt 6, VInt 0]"
  by (simp add: features_vision_vacia entrada_sin_ssd_def valores_de_def features_items_def
                CARACTERISTICAS_MODELO_def py_or_def or_default_def v_opt_int_def)

lemma caracteristicas_son_claves: "set CARACTERISTICAS_MODELO \<subseteq> set claves_features"
  by (simp add: CARACTERISTICAS_MODELO_def claves_features_def)

theorem ssd_flag_passed_through_and_predicted_witness:
  "u_es_ssd entrada_sin_ssd = None
   \<and> f_es_ssd (construir_features_desde_vision vision_vacia entrada_sin_ssd) = None
   \<and> map_of (features_items (construir_features_desde_vision vision_vacia entrada_sin_ssd))
        ''es_ssd'' = Some VNone
   \<and> modelo_entrenado (cargar_modelo (archivo_tolerante (Fin 2000000)))
   \<and> set (caracteristicas (cargar_modelo (archivo_tolerante (Fin 2000000)))) \<subseteq> set claves_features
   \<and> predecir_precio (cargar_modelo (archivo_tolerante (Fin 2000000)))
        (features_items (construir_features_desde_vision vision_vacia entrada_sin_ssd))
      = (Some (Fin 2000000), PrediccionRealizada (Fin 2000000))"
proof -
  have u: "u_es_ssd entrada_sin_ssd = None"
    by (simp add: entrada_sin_ssd_def)
  have m: "modelo_entrenado (cargar_modelo (archivo_tolerante (Fin 2000000)))"
          "caracteristicas (cargar_modelo (archivo_tolerante (Fin 2000000))) = CARACTERISTICAS_MODELO"
          "predict (cargar_modelo (archivo_tolerante (Fin 2000000))) = predict_tolerante (Fin 2000000)"
    by (simp_all add: cargar_modelo_def archivo_tolerante_def)
  from ssd_flag_passed_through_and_predicted
         [where v = vision_vacia and e = entrada_sin_ssd
            and m = "cargar_modelo (archivo_tolerante (Fin 2000000))", OF refl]
  show ?thesis
    using u m caracteristicas_son_claves by (simp add: predict_tolerante_def)
qed

text \<open>
  C10 as stated fails: with \<open>es_ssd\<close> omitted, a model that rejects \<open>None\<close> makes the
  predictor log a prediction error, not a missing feature, and a model that accepts
  the row makes it return a price.
\<close>

theorem ssd_flag_missing_feature_counterexample:
  "u_es_ssd entrada_sin_ssd = None
   \<and> predecir_precio (cargar_modelo (archivo_estricto (Fin 2000000)))
        (features_items (construir_features_desde_vision vision_vacia entrada_sin_ssd))
      = (None, ErrorAlPredecir)
   \<and> predecir_precio (cargar_modelo (archivo_tolerante (Fin 2000000)))
        (features_items (construir_features_desde_vision vision_vacia entrada_sin_ssd))
      = (Some (Fin 2000000), PrediccionRealizada (Fin 2000000))"
proof -
  have r: "recoger_valores
             (features_items (construir_features_desde_vision vision_vacia entrada_sin_ssd))
             CARACTERISTICAS_MODELO
           = Inr [VInt 5, VNone, VInt 512, VInt 16, VInt 11, VInt 6, VInt 0]"
    using recoger_valores_todas
            [of CARACTERISTICAS_MODELO
                "features_items (construir_features_desde_vision vision_vacia entrada_sin_ssd)"]
          caracteristicas_son_claves
    by (metis claves_features_items set_map valores_sin_ssd)
  have u: "u_es_ssd entrada_sin_ssd = None"
    by (simp add: entrada_sin_ssd_def)
  show ?thesis
    using u
    by (simp add: predecir_precio_def cargar_modelo_def archivo_estricto_def archivo_tolerante_def
                  r predict_estricto_def predict_tolerante_def)
qed


section \<open>Properties of the valuation endpoint\<close>

lemma avaluo_decision:
  assumes "avaluo archivo req = RespOk body"
  shows "\<exists>res p.
      predecir_precio_con_imagenes (imagenes req) (entrada_de req) archivo
        (factor_mercado req) (objetivo_precio req) = Inr res
    \<and> precio_predicho res = Some p
    \<and> decision_cliente req (r_detalle res) p = Inr body"
  using assms by (auto simp: avaluo_def split: if_splits sum.splits option.splits)

lemma decision_campos:
  assumes "decision_cliente req det p = Inr body"
  shows "c_precio_predicho body = p"
    and "bloqueado_por_minimo body
           = (bloqueo_minimo det \<or> bloqueo_cpu req \<or> bloqueo_disco req)"
    and "bloqueo_minimo det \<or> bloqueo_cpu req \<or> bloqueo_disco req
           \<Longrightarrow> mensaje_cliente body = mensaje_bloqueo"
    and "\<not> (bloqueo_minimo det \<or> bloqueo_cpu req \<or> bloqueo_disco req)
           \<Longrightarrow> \<exists>n. int_round p = Inr n \<and> mensaje_cliente body = mensaje_avaluo n"
    and "advertencias body
     = (if texto (procesador req) \<noteq> [] \<and> \<not> cpu_is_known (texto (procesador req))
        then [aviso_procesador] else [])
       @ (if motivo_cpu_de req \<noteq> [] then [motivo_cpu_de req] else [])
       @ (if motivo_disco_de req \<noteq> [] then [motivo_disco_de req] else [])
       @ (if texto (marca_modelo req) \<noteq> [] \<and> infer_brand (texto (marca_modelo req)) = None
          then [aviso_marca] else [])"
    and "c_precio_mercado_sin_minimo (c_detalle body) = d_precio_mercado_sin_minimo det"
    and "c_min_prestamo (c_detalle body) = d_min_prestamo det"
    and "c_precio_post_danio (c_detalle body) = d_precio_post_danio det"
    and "c_precio_base_ml (c_detalle body) = None"
proof -
  define blk where "blk = (bloqueo_minimo det \<or> bloqueo_cpu req \<or> bloqueo_disco req)"
  define cuerpo_de where "cuerpo_de mensaje =
     \<lparr> c_precio_predicho = p,
       bloqueado_por_minimo = blk,
       mensaje_cliente = mensaje,
       advertencias =
         (if texto (procesador req) \<noteq> [] \<and> \<not> cpu_is_known (texto (procesador req))
          then [aviso_procesador] else [])
         @ (if motivo_cpu_de req \<noteq> [] then [motivo_cpu_de req] else [])
         @ (if motivo_disco_de req \<noteq> [] then [motivo_disco_de req] else [])
         @ (if texto (marca_modelo req) \<noteq> [] \<and> infer_brand (texto (marca_modelo req)) = None
            then [aviso_marca] else []),
       c_detalle =
         \<lparr> c_precio_base_ml = None,
           c_precio_post_danio = d_precio_post_danio det,
           c_precio_mercado_sin_minimo = d_precio_mercado_sin_minimo det,
           c_min_prestamo = d_min_prestamo det \<rparr> \<rparr>" for mensaje
  have casos: "decision_cliente req det p =
     (if blk then Inr (cuerpo_de mensaje_bloqueo)
      else case int_round p of
             Inl x \<Rightarrow> Inl (snd x)
           | Inr n \<Rightarrow> Inr (cuerpo_de (mensaje_avaluo n)))"
  proof (cases "int_round p")
    case (Inl x)
    then show ?thesis
      by (cases x)
         (simp add: decision_cliente_def cuerpo_de_def blk_def Let_def split_beta bloqueo_cpu_def
                    bloqueo_disco_def motivo_cpu_de_def motivo_disco_de_def)
  next
    case (Inr n)
    then show ?thesis
      by (simp add: decision_cliente_def cuerpo_de_def blk_def Let_def split_beta bloqueo_cpu_def
                    bloqueo_disco_def motivo_cpu_de_def motivo_disco_de_def)
  qed
  have "\<exists>mensaje. body = cuerpo_de mensaje
          \<and> (blk \<longrightarrow> mensaje = mensaje_bloqueo)
          \<and> (\<not> blk \<longrightarrow> (\<exists>n. int_round p = Inr n \<and> mensaje = mensaje_avaluo n))"
  proof (cases blk)
    case True
    then show ?thesis
      using assms unfolding casos by auto
  next
    case False
    then show ?thesis
      using assms unfolding casos by (cases "int_round p") auto
  qed
  then obtain mensaje where
    body: "body = cuerpo_de mensaje"
    and m1: "blk \<Longrightarrow> mensaje = mensaje_bloqueo"
    and m2: "\<not> blk \<Longrightarrow> \<exists>n. int_round p = Inr n \<and> mensaje = mensaje_avaluo n"
    by blast
  show "c_precio_predicho body = p"
    unfolding body by (simp add: cuerpo_de_def)
  show "bloqueado_por_minimo body
           = (bloqueo_minimo det \<or> bloqueo_cpu req \<or> bloqueo_disco req)"
    unfolding body by (simp add: cuerpo_de_def blk_def)
  show "bloqueo_minimo det \<or> bloqueo_cpu req \<or> bloqueo_disco req
           \<Longrightarrow> mensaje_cliente body = mensaje_bloqueo"
    unfolding body using m1 by (simp add: cuerpo_de_def blk_def)
  show "\<not> (bloqueo_minimo det \<or> bloqueo_cpu req \<or> bloqueo_disco req)
           \<Longrightarrow> \<exists>n. int_round p = Inr n \<and> mensaje_cliente body = mensaje_avaluo n"
    unfolding body using m2 by (simp add: cuerpo_de_def blk_def)
  show "advertencias body
     = (if texto (procesador req) \<noteq> [] \<and> \<not> cpu_is_known (texto (procesador req))
        then [aviso_procesador] else [])
       @ (if motivo_cpu_de req \<noteq> [] then [motivo_cpu_de req] else [])
       @ (if motivo_disco_de req \<noteq> [] then [motivo_disco_de req] else [])
       @ (if texto (marca_modelo req) \<noteq> [] \<and> infer_brand (texto (marca_modelo req)) = None
          then [aviso_marca] else [])"
    unfolding body by (simp add: cuerpo_de_def)
  show "c_precio_mercado_sin_minimo (c_detalle body) = d_precio_mercado_sin_minimo det"
    unfolding body by (simp add: cuerpo_de_def)
  show "c_min_prestamo (c_detalle body) = d_min_prestamo det"
    unfolding body by (simp add: cuerpo_de_def)
  show "c_precio_post_danio (c_detalle body) = d_precio_post_danio det"
    unfolding body by (simp add: cuerpo_de_def)
  show "c_precio_base_ml (c_detalle body) = None"
    unfolding body by (simp add: cuerpo_de_def)
qed

lemma py_max_no_cero_negativo: "0 < a \<Longrightarrow> py_max (Fin a) b \<noteq> NZero"
  by (auto simp: py_max_def fgt_def flt_def valor_def)

lemma int_round_finito:
  "int_round p = Inr n \<Longrightarrow> p \<noteq> NZero \<Longrightarrow> \<exists>r. p = Fin r \<and> n = py_round r"
  by (cases p) (auto simp: int_round_def)

lemma precio_predicho_some:
  assumes "predecir_precio_con_imagenes imgs e archivo fm ob = Inr res"
    and "precio_predicho res = Some p"
  shows "\<exists>pre post. d_precio_mercado_sin_minimo (r_detalle res) = Some pre
               \<and> p = py_max (Fin (d_min_prestamo (r_detalle res))) pre
               \<and> d_min_prestamo (r_detalle res) = min_prestamo MARKET_RULES
               \<and> d_precio_post_danio (r_detalle res) = Some post
               \<and> pre = fmul post (factor_efectivo (Some post) fm ob)"
proof -
  obtain combined where res:
    "res = \<lparr> precio_predicho =
                fst (componer_precio (inferir_danios combined)
                       (fst (predecir_precio (cargar_modelo archivo)
                               (features_items (construir_features_desde_vision combined e))))
                       fm ob),
              r_features = construir_features_desde_vision combined e,
              r_vision = combined,
              r_detalle =
                snd (componer_precio (inferir_danios combined)
                       (fst (predecir_precio (cargar_modelo archivo)
                               (features_items (construir_features_desde_vision combined e))))
                       fm ob) \<rparr>"
    using assms(1)
    by (auto simp: predecir_precio_con_imagenes_def Let_def split_beta split: sum.splits)
  define dn where "dn = inferir_danios combined"
  define base where
    "base = fst (predecir_precio (cargar_modelo archivo)
                   (features_items (construir_features_desde_vision combined e)))"
  have r: "precio_predicho res = fst (componer_precio dn base fm ob)"
          "r_detalle res = snd (componer_precio dn base fm ob)"
    unfolding res dn_def base_def by simp_all
  show ?thesis
  proof (cases base)
    case None
    then have "precio_predicho res = None"
      unfolding r by (simp add: componer_precio_def Let_def MARKET_RULES_def)
    with assms(2) show ?thesis by simp
  next
    case (Some b)
    then show ?thesis
      using assms(2) unfolding r by (auto simp: componer_precio_some Let_def)
  qed
qed

text \<open>
  C6.  In every successful response: the price before the floor \<open>pre\<close> is reported, the
  final price is the maximum of the floor and \<open>pre\<close>, the economic floor block is
  \<open>pre < floor\<close>, and the blocked flag is the disjunction of the CPU block, the storage
  block and the economic floor block, so it is set whenever \<open>pre < floor\<close>.  In
  particular (Scenario D) whenever the damage-adjusted price is 100,000 and neither a
  factor override nor a target is given, the configured factor 0.44 and the floor
  100,000 give \<open>pre = 44,000\<close>, the final price 100,000 with the floor applied, and the
  blocked flag set.
\<close>

theorem blocked_is_disjunction_of_three_gates:
  assumes "avaluo archivo req = RespOk body"
  shows "(\<exists>pre. c_precio_mercado_sin_minimo (c_detalle body) = Some pre
              \<and> c_precio_predicho body = py_max (Fin (c_min_prestamo (c_detalle body))) pre
              \<and> c_min_prestamo (c_detalle body) = min_prestamo MARKET_RULES
              \<and> bloqueo_economico body = flt pre (Fin (c_min_prestamo (c_detalle body)))
              \<and> bloqueado_por_minimo body
                  = (bloqueo_cpu req \<or> bloqueo_disco req \<or> bloqueo_economico body)
              \<and> (flt pre (Fin (c_min_prestamo (c_detalle body))) \<longrightarrow> bloqueado_por_minimo body)
              \<and> (\<forall>r. pre = Fin r \<longrightarrow>
                    c_precio_predicho body = Fin (max (c_min_prestamo (c_detalle body)) r)
                    \<and> bloqueo_economico body = (r < c_min_prestamo (c_detalle body))
                    \<and> (r < c_min_prestamo (c_detalle body) \<longrightarrow> bloqueado_por_minimo body)))
       \<and> (c_precio_post_danio (c_detalle body) = Some (Fin 100000)
            \<and> factor_mercado req = None \<and> objetivo_precio req = None
            \<longrightarrow> c_precio_mercado_sin_minimo (c_detalle body) = Some (Fin 44000)
                \<and> c_min_prestamo (c_detalle body) = 100000
                \<and> c_precio_predicho body = Fin 100000
                \<and> bloqueo_economico body
                \<and> bloqueado_por_minimo body)"
proof -
  from avaluo_decision [OF assms] obtain res p where
    run: "predecir_precio_con_imagenes (imagenes req) (entrada_de req) archivo
            (factor_mercado req) (objetivo_precio req) = Inr res"
    and p: "precio_predicho res = Some p"
    and dec: "decision_cliente req (r_detalle res) p = Inr body"
    by blast
  note campos = decision_campos [OF dec]
  have body: "c_precio_predicho body = p"
      "bloqueado_por_minimo body
         = (bloqueo_minimo (r_detalle res) \<or> bloqueo_cpu req \<or> bloqueo_disco req)"
      "c_precio_mercado_sin_minimo (c_detalle body) = d_precio_mercado_sin_minimo (r_detalle res)"
      "c_min_prestamo (c_detalle body) = d_min_prestamo (r_detalle res)"
      "c_precio_post_danio (c_detalle body) = d_precio_post_danio (r_detalle res)"
    using campos(1,2,6,7,8) by simp_all
  from precio_predicho_some [OF run p] obtain pre post where
    pre: "d_precio_mercado_sin_minimo (r_detalle res) = Some pre"
      "p = py_max (Fin (d_min_prestamo (r_detalle res))) pre"
      "d_min_prestamo (r_detalle res) = min_prestamo MARKET_RULES"
    and post: "d_precio_post_danio (r_detalle res) = Some post"
      "pre = fmul post (factor_efectivo (Some post) (factor_mercado req) (objetivo_precio req))"
    by blast
  have eco: "bloqueo_economico body = flt pre (Fin (c_min_prestamo (c_detalle body)))"
    by (simp add: bloqueo_economico_def body pre)
  have min: "bloqueo_minimo (r_detalle res) = bloqueo_economico body"
    by (simp add: bloqueo_minimo_def bloqueo_economico_def body pre)
  have fin: "c_precio_predicho body = Fin (max (c_min_prestamo (c_detalle body)) r)
             \<and> bloqueo_economico body = (r < c_min_prestamo (c_detalle body))
             \<and> (r < c_min_prestamo (c_detalle body) \<longrightarrow> bloqueado_por_minimo body)"
    if "pre = Fin r" for r
    using that body pre eco min by (simp add: py_max_fin flt_fin)
  have general: "\<exists>pre. c_precio_mercado_sin_minimo (c_detalle body) = Some pre
              \<and> c_precio_predicho body = py_max (Fin (c_min_prestamo (c_detalle body))) pre
              \<and> c_min_prestamo (c_detalle body) = min_prestamo MARKET_RULES
              \<and> bloqueo_economico body = flt pre (Fin (c_min_prestamo (c_detalle body)))
              \<and> bloqueado_por_minimo body
                  = (bloqueo_cpu req \<or> bloqueo_disco req \<or> bloqueo_economico body)
              \<and> (flt pre (Fin (c_min_prestamo (c_detalle body))) \<longrightarrow> bloqueado_por_minimo body)
              \<and> (\<forall>r. pre = Fin r \<longrightarrow>
                    c_precio_predicho body = Fin (max (c_min_prestamo (c_detalle body)) r)
                    \<and> bloqueo_economico body = (r < c_min_prestamo (c_detalle body))
                    \<and> (r < c_min_prestamo (c_detalle body) \<longrightarrow> bloqueado_por_minimo body))"
  proof (intro exI conjI)
    show "c_precio_mercado_sin_minimo (c_detalle body) = Some pre"
      using body pre by simp
    show "c_precio_predicho body = py_max (Fin (c_min_prestamo (c_detalle body))) pre"
      using body pre by simp
    show "c_min_prestamo (c_detalle body) = min_prestamo MARKET_RULES"
      using body pre by simp
    show "bloqueo_economico body = flt pre (Fin (c_min_prestamo (c_detalle body)))"
      by (rule eco)
    show "bloqueado_por_minimo body
            = (bloqueo_cpu req \<or> bloqueo_disco req \<or> bloqueo_economico body)"
      using body(2) min by auto
    show "flt pre (Fin (c_min_prestamo (c_detalle body))) \<longrightarrow> bloqueado_por_minimo body"
      using body(2) min eco by auto
    show "\<forall>r. pre = Fin r \<longrightarrow>
                    c_precio_predicho body = Fin (max (c_min_prestamo (c_detalle body)) r)
                    \<and> bloqueo_economico body = (r < c_min_prestamo (c_detalle body))
                    \<and> (r < c_min_prestamo (c_detalle body) \<longrightarrow> bloqueado_por_minimo body)"
      using fin by blast
  qed
  have escenario: "c_precio_post_danio (c_detalle body) = Some (Fin 100000)
            \<and> factor_mercado req = None \<and> objetivo_precio req = None
            \<longrightarrow> c_precio_mercado_sin_minimo (c_detalle body) = Some (Fin 44000)
                \<and> c_min_prestamo (c_detalle body) = 100000
                \<and> c_precio_predicho body = Fin 100000
                \<and> bloqueo_economico body
                \<and> bloqueado_por_minimo body"
  proof
    assume h: "c_precio_post_danio (c_detalle body) = Some (Fin 100000)
               \<and> factor_mercado req = None \<and> objetivo_precio req = None"
    then have "post = Fin 100000"
      using body(5) post(1) by simp
    with h have "pre = Fin 44000"
      using post(2) by (simp add: factor_efectivo_sin_objetivo MARKET_RULES_def fmul_fin)
    then show "c_precio_mercado_sin_minimo (c_detalle body) = Some (Fin 44000)
                \<and> c_min_prestamo (c_detalle body) = 100000
                \<and> c_precio_predicho body = Fin 100000
                \<and> bloqueo_economico body
                \<and> bloqueado_por_minimo body"
      using body pre eco min by (simp add: MARKET_RULES_def py_max_fin flt_fin)
  qed
  from general escenario show ?thesis
    by blast
qed

lemma predecir_tolerante:
  "predecir_precio (cargar_modelo (archivo_tolerante precio)) (features_items f)
   = (Some precio, PrediccionRealizada precio)"
proof -
  have "recoger_valores (features_items f) CARACTERISTICAS_MODELO
        = Inr (valores_de (features_items f) CARACTERISTICAS_MODELO)"
    using caracteristicas_son_claves
    by (intro recoger_valores_todas) (metis claves_features_items set_map)
  then show ?thesis
    by (simp add: predecir_precio_def cargar_modelo_def archivo_tolerante_def predict_tolerante_def)
qed

lemma predecir_con_imagen_vacia:
  "predecir_precio_con_imagenes [Inr vision_vacia] e (archivo_tolerante precio) fm ob
   = Inr \<lparr> precio_predicho = fst (componer_precio danios_ninguno (Some precio) fm ob),
           r_features = construir_features_desde_vision vision_vacia e,
           r_vision = vision_vacia,
           r_detalle = snd (componer_precio danios_ninguno (Some precio) fm ob) \<rparr>"
proof -
  have "combinar \<lparr> brands = [], objects = [], tags = [], ocr_lines = [] \<rparr> [Inr vision_vacia]
        = Inr vision_vacia"
    by (simp add: vision_vacia_def)
  then show ?thesis
    by (simp add: predecir_precio_con_imagenes_def Let_def split_beta inferir_danios_vacia
                  predecir_tolerante del: combinar.simps)
qed

lemma politica_i5: "cpu_excluido_politica ''Core i5-1135G7'' = (False, [])"
  by code_simp

lemma conocido_i5: "cpu_is_known ''Core i5-1135G7''"
  by code_simp

lemma marca_dell: "infer_brand ''Dell'' = Some ''Dell''"
  by code_simp

lemma int_round_880000: "int_round (Fin 880000) = Inr 880000"
  by (simp add: int_round_def py_round_def)

lemma avaluo_escenario_a:
  "avaluo (archivo_tolerante (Fin 2000000)) solicitud_base
   = RespOk \<lparr> c_precio_predicho = Fin 880000, bloqueado_por_minimo = False,
              mensaje_cliente = mensaje_avaluo 880000, advertencias = [],
              c_detalle = \<lparr> c_precio_base_ml = None, c_precio_post_danio = Some (Fin 2000000),
                            c_precio_mercado_sin_minimo = Some (Fin 880000),
                            c_min_prestamo = 100000 \<rparr> \<rparr>"
  by (simp add: avaluo_def decision_cliente_def solicitud_base_def predecir_con_imagen_vacia
                componer_escenario_a texto_def politica_i5 conocido_i5 marca_dell
                bloqueo_minimo_def flt_fin int_round_880000 disco_excluido_politica_def
                py_int_def)

lemma avaluo_escenario_d:
  "avaluo (archivo_tolerante (Fin 100000)) solicitud_base
   = RespOk \<lparr> c_precio_predicho = Fin 100000, bloqueado_por_minimo = True,
              mensaje_cliente = mensaje_bloqueo, advertencias = [],
              c_detalle = \<lparr> c_precio_base_ml = None, c_precio_post_danio = Some (Fin 100000),
                            c_precio_mercado_sin_minimo = Some (Fin 44000),
                            c_min_prestamo = 100000 \<rparr> \<rparr>"
  by (simp add: avaluo_def decision_cliente_def solicitud_base_def predecir_con_imagen_vacia
                componer_escenario_d texto_def politica_i5 conocido_i5 marca_dell
                bloqueo_minimo_def flt_fin disco_excluido_politica_def py_int_def)

lemma avaluo_hdd:
  "avaluo (archivo_tolerante (Fin 2000000)) solicitud_hdd
   = RespOk \<lparr> c_precio_predicho = Fin 880000, bloqueado_por_minimo = True,
              mensaje_cliente = mensaje_bloqueo, advertencias = [motivo_hdd],
              c_detalle = \<lparr> c_precio_base_ml = None, c_precio_post_danio = Some (Fin 2000000),
                            c_precio_mercado_sin_minimo = Some (Fin 880000),
                            c_min_prestamo = 100000 \<rparr> \<rparr>"
  by (simp add: avaluo_def decision_cliente_def solicitud_hdd_def solicitud_base_def
                predecir_con_imagen_vacia componer_escenario_a texto_def politica_i5 conocido_i5
                marca_dell bloqueo_minimo_def flt_fin disco_excluido_politica_def py_int_def
                motivo_hdd_nonempty)

text \<open>
  A model that answers an infinite price: the final price is infinite, no block fires,
  and rounding the price for the message raises; the response is the error 500 with the
  text of the exception.
\<close>

lemma componer_infinito:
  "componer_precio danios_ninguno (Some PInf) None None
   = (Some PInf,
      \<lparr> d_precio_base_ml = Some PInf, d_factor_danio = 1,
        d_precio_post_danio = Some PInf,
        d_danios = danios_detectados danios_ninguno, d_motivos_danios = [],
        d_factor_compraventa = Fin (44/100), d_min_prestamo = 100000,
        d_objetivo_precio = None, d_evidencias_danio = [],
        d_precio_mercado_sin_minimo = Some PInf \<rparr>)"
  by (simp add: componer_precio_some Let_def factor_efectivo_sin_objetivo fmul_def es_inf_def
                es_cero_def negativo_def infinito_def py_max_def fgt_def flt_def
                MARKET_RULES_def danios_ninguno_def)

lemma avaluo_precio_infinito:
  "avaluo (archivo_tolerante PInf) solicitud_base = Resp500 error_infinito"
  by (simp add: avaluo_def decision_cliente_def solicitud_base_def predecir_con_imagen_vacia
                componer_infinito texto_def politica_i5 conocido_i5 marca_dell
                bloqueo_minimo_def flt_def int_round_def disco_excluido_politica_def py_int_def)

theorem blocked_is_disjunction_of_three_gates_witness:
  "\<exists>body. avaluo (archivo_tolerante (Fin 100000)) solicitud_base = RespOk body
          \<and> c_precio_post_danio (c_detalle body) = Some (Fin 100000)
          \<and> factor_mercado solicitud_base = None \<and> objetivo_precio solicitud_base = None
          \<and> c_precio_mercado_sin_minimo (c_detalle body) = Some (Fin 44000)
          \<and> c_min_prestamo (c_detalle body) = 100000
          \<and> c_precio_predicho body = Fin 100000
          \<and> bloqueo_economico body
          \<and> \<not> bloqueo_cpu solicitud_base \<and> \<not> bloqueo_disco solicitud_base
          \<and> bloqueado_por_minimo body"
proof -
  let ?body = "\<lparr> c_precio_predicho = Fin 100000, bloqueado_por_minimo = True,
              mensaje_cliente = mensaje_bloqueo, advertencias = [],
              c_detalle = \<lparr> c_precio_base_ml = None, c_precio_post_danio = Some (Fin 100000),
                            c_precio_mercado_sin_minimo = Some (Fin 44000),
                            c_min_prestamo = 100000 \<rparr> \<rparr>"
  have gates: "\<not> bloqueo_cpu solicitud_base" "\<not> bloqueo_disco solicitud_base"
    by (simp_all add: bloqueo_cpu_def bloqueo_disco_def solicitud_base_def texto_def politica_i5
                      disco_excluido_politica_def py_int_def)
  have inputs: "c_precio_post_danio (c_detalle ?body) = Some (Fin 100000)"
    "factor_mercado solicitud_base = None" "objetivo_precio solicitud_base = None"
    by (simp_all add: solicitud_base_def)
  from blocked_is_disjunction_of_three_gates [OF avaluo_escenario_d] inputs
  have "c_precio_mercado_sin_minimo (c_detalle ?body) = Some (Fin 44000)
        \<and> c_min_prestamo (c_detalle ?body) = 100000
        \<and> c_precio_predicho ?body = Fin 100000 \<and> bloqueo_economico ?body
        \<and> bloqueado_por_minimo ?body"
    by blast
  with avaluo_escenario_d gates inputs show ?thesis
    by simp
qed

lemma motivos_fuera_del_mensaje:
  "\<not> py_in motivo_excluido mensaje_bloqueo" "\<not> py_in motivo_i3_anterior mensaje_bloqueo"
  "\<not> py_in motivo_i3_sin_gen mensaje_bloqueo" "\<not> py_in motivo_hdd mensaje_bloqueo"
  by code_simp+

lemma motivo_cpu_casos:
  "snd (cpu_excluido_politica name) = [] \<or> snd (cpu_excluido_politica name) = motivo_excluido
   \<or> snd (cpu_excluido_politica name) = motivo_i3_anterior"
  by (simp add: cpu_excluido_politica_def Let_def)

lemma motivo_cpu_bloqueo:
  "fst (cpu_excluido_politica name) \<Longrightarrow> snd (cpu_excluido_politica name) \<noteq> []"
  by (auto simp: cpu_excluido_politica_def Let_def motivo_excluido_def motivo_i3_anterior_def
           split: if_splits)

lemma motivo_disco_casos:
  "disco_excluido_politica v = (True, motivo_hdd) \<or> disco_excluido_politica v = (False, [])"
  by (simp add: disco_excluido_politica_def Let_def)

text \<open>
  C9.  Two successful responses that are both blocked, by whatever gates, carry the
  same client message, the fixed decline text.  The reason of a CPU or storage gate
  that fired is an entry of the advisories and does not occur in the client message.
  In a response that is not blocked the client message is the price announcement with
  the final price rounded to an integer and grouped by thousands, followed by the
  question whether to continue.
\<close>

theorem blocked_message_is_uniform:
  assumes "avaluo archivo1 req1 = RespOk body1"
    and "avaluo archivo2 req2 = RespOk body2"
  shows "(bloqueado_por_minimo body1 \<and> bloqueado_por_minimo body2
            \<longrightarrow> mensaje_cliente body1 = mensaje_cliente body2
                \<and> mensaje_cliente body1 = mensaje_bloqueo)
       \<and> (bloqueo_cpu req1
            \<longrightarrow> motivo_cpu_de req1 \<noteq> [] \<and> motivo_cpu_de req1 \<in> set (advertencias body1)
                \<and> \<not> py_in (motivo_cpu_de req1) (mensaje_cliente body1))
       \<and> (bloqueo_disco req1
            \<longrightarrow> motivo_disco_de req1 \<noteq> [] \<and> motivo_disco_de req1 \<in> set (advertencias body1)
                \<and> \<not> py_in (motivo_disco_de req1) (mensaje_cliente body1))
       \<and> (\<not> bloqueado_por_minimo body1
            \<longrightarrow> (\<exists>r. c_precio_predicho body1 = Fin r
                  \<and> mensaje_cliente body1
                      = ''Tu aval'' @ [CHR 0xFA] @ ''o del pc enviado es de $''
                        @ formato_miles (py_round r)
                        @ ''. '' @ [CHR 0xBF] @ ''Deseas continuar con el contrato?''))"
proof -
  from avaluo_decision [OF assms(1)] obtain res1 :: resultado and p1 where
    run1: "predecir_precio_con_imagenes (imagenes req1) (entrada_de req1) archivo1
            (factor_mercado req1) (objetivo_precio req1) = Inr res1"
    and p1: "precio_predicho res1 = Some p1"
    and d1: "decision_cliente req1 (r_detalle res1) p1 = Inr body1"
    by blast
  from avaluo_decision [OF assms(2)] obtain res2 :: resultado and p2 where
    d2: "decision_cliente req2 (r_detalle res2) p2 = Inr body2"
    by blast
  note c1 = decision_campos [OF d1]
  note c2 = decision_campos [OF d2]
  have b1:
    "c_precio_predicho body1 = p1"
    "bloqueado_por_minimo body1
       = (bloqueo_minimo (r_detalle res1) \<or> bloqueo_cpu req1 \<or> bloqueo_disco req1)"
    "bloqueado_por_minimo body1 \<Longrightarrow> mensaje_cliente body1 = mensaje_bloqueo"
    "advertencias body1
       = (if texto (procesador req1) \<noteq> [] \<and> \<not> cpu_is_known (texto (procesador req1))
          then [aviso_procesador] else [])
         @ (if motivo_cpu_de req1 \<noteq> [] then [motivo_cpu_de req1] else [])
         @ (if motivo_disco_de req1 \<noteq> [] then [motivo_disco_de req1] else [])
         @ (if texto (marca_modelo req1) \<noteq> [] \<and> infer_brand (texto (marca_modelo req1)) = None
            then [aviso_marca] else [])"
    using c1(1,2,3,5) by simp_all
  have b2: "bloqueado_por_minimo body2 \<Longrightarrow> mensaje_cliente body2 = mensaje_bloqueo"
    using c2(2,3) by simp
  have no_cero: "p1 \<noteq> NZero"
  proof -
    from precio_predicho_some [OF run1 p1] obtain pre where
      "p1 = py_max (Fin (d_min_prestamo (r_detalle res1))) pre"
      "d_min_prestamo (r_detalle res1) = min_prestamo MARKET_RULES"
      by blast
    then show ?thesis
      by (simp add: MARKET_RULES_def py_max_no_cero_negativo)
  qed
  have uniform: "bloqueado_por_minimo body1 \<and> bloqueado_por_minimo body2
            \<longrightarrow> mensaje_cliente body1 = mensaje_cliente body2
                \<and> mensaje_cliente body1 = mensaje_bloqueo"
    using b1(3) b2 by simp
  have cpu: "bloqueo_cpu req1
            \<longrightarrow> motivo_cpu_de req1 \<noteq> [] \<and> motivo_cpu_de req1 \<in> set (advertencias body1)
                \<and> \<not> py_in (motivo_cpu_de req1) (mensaje_cliente body1)"
  proof
    assume blk: "bloqueo_cpu req1"
    then have ne: "motivo_cpu_de req1 \<noteq> []"
      unfolding bloqueo_cpu_def motivo_cpu_de_def by (rule motivo_cpu_bloqueo)
    have msg: "mensaje_cliente body1 = mensaje_bloqueo"
      using blk b1(2,3) by simp
    have "motivo_cpu_de req1 = motivo_excluido \<or> motivo_cpu_de req1 = motivo_i3_anterior"
      using ne motivo_cpu_casos [of "texto (procesador req1)"] by (simp add: motivo_cpu_de_def)
    then have "\<not> py_in (motivo_cpu_de req1) (mensaje_cliente body1)"
      unfolding msg using motivos_fuera_del_mensaje by auto
    then show "motivo_cpu_de req1 \<noteq> [] \<and> motivo_cpu_de req1 \<in> set (advertencias body1)
                \<and> \<not> py_in (motivo_cpu_de req1) (mensaje_cliente body1)"
      using ne b1(4) by simp
  qed
  have disco: "bloqueo_disco req1
            \<longrightarrow> motivo_disco_de req1 \<noteq> [] \<and> motivo_disco_de req1 \<in> set (advertencias body1)
                \<and> \<not> py_in (motivo_disco_de req1) (mensaje_cliente body1)"
  proof
    assume blk: "bloqueo_disco req1"
    then have m: "motivo_disco_de req1 = motivo_hdd"
      using motivo_disco_casos [of "FInt (es_ssd req1)"]
      by (auto simp: bloqueo_disco_def motivo_disco_de_def)
    have msg: "mensaje_cliente body1 = mensaje_bloqueo"
      using blk b1(2,3) by simp
    show "motivo_disco_de req1 \<noteq> [] \<and> motivo_disco_de req1 \<in> set (advertencias body1)
                \<and> \<not> py_in (motivo_disco_de req1) (mensaje_cliente body1)"
      unfolding msg using m motivo_hdd_nonempty motivos_fuera_del_mensaje(4) b1(4) by simp
  qed
  have libre: "\<not> bloqueado_por_minimo body1
            \<longrightarrow> (\<exists>r. c_precio_predicho body1 = Fin r
                  \<and> mensaje_cliente body1
                      = ''Tu aval'' @ [CHR 0xFA] @ ''o del pc enviado es de $''
                        @ formato_miles (py_round r)
                        @ ''. '' @ [CHR 0xBF] @ ''Deseas continuar con el contrato?'')"
  proof
    assume "\<not> bloqueado_por_minimo body1"
    then have "\<not> (bloqueo_minimo (r_detalle res1) \<or> bloqueo_cpu req1 \<or> bloqueo_disco req1)"
      using b1(2) by simp
    from c1(4) [OF this] obtain n where
      n: "int_round p1 = Inr n" "mensaje_cliente body1 = mensaje_avaluo n"
      by blast
    from int_round_finito [OF n(1) no_cero] obtain r where
      r: "p1 = Fin r" "n = py_round r"
      by blast
    show "\<exists>r. c_precio_predicho body1 = Fin r
                  \<and> mensaje_cliente body1
                      = ''Tu aval'' @ [CHR 0xFA] @ ''o del pc enviado es de $''
                        @ formato_miles (py_round r)
                        @ ''. '' @ [CHR 0xBF] @ ''Deseas continuar con el contrato?''"
      using b1(1) n(2) r by (simp add: mensaje_avaluo_def)
  qed
  from uniform cpu disco libre show ?thesis
    by blast
qed

lemma formato_880000: "formato_miles (py_round 880000) = ''880,000''"
  by (simp add: formato_miles_def py_round_def dec_digits.simps digit_chr_def)

lemma mensaje_880000:
  "mensaje_avaluo 880000
   = ''Tu aval'' @ [CHR 0xFA] @ ''o del pc enviado es de $880,000. '' @ [CHR 0xBF]
     @ ''Deseas continuar con el contrato?''"
  by (simp add: mensaje_avaluo_def formato_miles_def dec_digits.simps digit_chr_def)

theorem blocked_message_is_uniform_witness:
  "\<exists>body_d body_h body_a.
      avaluo (archivo_tolerante (Fin 100000)) solicitud_base = RespOk body_d
    \<and> avaluo (archivo_tolerante (Fin 2000000)) solicitud_hdd = RespOk body_h
    \<and> avaluo (archivo_tolerante (Fin 2000000)) solicitud_base = RespOk body_a
    \<and> bloqueado_por_minimo body_d \<and> bloqueado_por_minimo body_h
    \<and> \<not> bloqueo_disco solicitud_base \<and> bloqueo_disco solicitud_hdd
    \<and> mensaje_cliente body_h = mensaje_cliente body_d
    \<and> advertencias body_d = [] \<and> advertencias body_h = [motivo_hdd]
    \<and> \<not> py_in motivo_hdd (mensaje_cliente body_h)
    \<and> \<not> bloqueado_por_minimo body_a
    \<and> mensaje_cliente body_a
        = ''Tu aval'' @ [CHR 0xFA] @ ''o del pc enviado es de $880,000. '' @ [CHR 0xBF]
          @ ''Deseas continuar con el contrato?''"
proof -
  have gates: "\<not> bloqueo_disco solicitud_base" "bloqueo_disco solicitud_hdd"
              "motivo_disco_de solicitud_hdd = motivo_hdd"
    by (simp_all add: bloqueo_disco_def motivo_disco_de_def solicitud_hdd_def solicitud_base_def
                      disco_excluido_politica_def py_int_def)
  note h = blocked_message_is_uniform [OF avaluo_hdd avaluo_escenario_d]
  note a = blocked_message_is_uniform [OF avaluo_escenario_a avaluo_escenario_a]
  show ?thesis
    using h a gates avaluo_escenario_d avaluo_hdd avaluo_escenario_a
    by (simp add: formato_880000 mensaje_880000)
qed

end
